theory Spec2Isabelle
  imports Complex_Main "HOL-Library.Sublist"
begin

section \<open>Errors\<close>

text \<open>
  Go's \<open>error\<close> values. \<open>ErrorString\<close> is \<open>errors.New\<close> and \<open>fmt.Errorf\<close> without
  \<open>%w\<close>; \<open>WrapError\<close> is \<open>fmt.Errorf\<close> with \<open>%w\<close>; \<open>ErrAuthData\<close> is
  \<open>errorchain.NewWithMessagef(ErrAuthData, ...)\<close>; \<open>ArgumentError\<close> and \<open>UnauthorizedError\<close>
  are the structs of \<open>errorsx\<close> (message and cause). \<open>LibError\<close> is an error produced by
  a library or an external collaborator (YAML and JSON decoding, the transport, the handler
  factory, a pipeline stage); \<open>Panic\<close> is a run-time panic. A \<open>nil\<close> error is \<open>None\<close> of
  \<open>error option\<close>.
\<close>

datatype error =
    ErrNoRuleFound
  | ErrAuthData string
  | ArgumentError string error
  | UnauthorizedError string error
  | ErrorString string
  | WrapError string error
  | UnmarshalTypeError string string
  | SyntaxError string
  | LibError string
  | Panic string

section \<open>Strings\<close>

text \<open>
  A Go string is a sequence of bytes: \<open>string\<close>. \<open>strings.TrimPrefix\<close> removes the
  prefix when the string starts with it. \<open>strings.TrimSpace\<close> removes every leading
  and trailing rune for which \<open>unicode.IsSpace\<close> holds; \<open>spaceRunes\<close> lists the UTF-8
  encodings of those runes (tab, LF, VT, FF, CR, space, U+0085, U+00A0, U+1680,
  U+2000 to U+200A, U+2028, U+2029, U+202F, U+205F, U+3000). A byte sequence that does
  not decode to one of them (an invalid encoding included) stops the trimming.
\<close>

definition TrimPrefix :: "string \<Rightarrow> string \<Rightarrow> string" where
  "TrimPrefix s p = (if prefix p s then drop (length p) s else s)"

definition spaceRunes :: "string list" where
  "spaceRunes =
    [[CHR 0x09], [CHR 0x0A], [CHR 0x0B], [CHR 0x0C], [CHR 0x0D], [CHR 0x20],
     [CHR 0xC2, CHR 0x85], [CHR 0xC2, CHR 0xA0],
     [CHR 0xE1, CHR 0x9A, CHR 0x80],
     [CHR 0xE2, CHR 0x80, CHR 0x80], [CHR 0xE2, CHR 0x80, CHR 0x81],
     [CHR 0xE2, CHR 0x80, CHR 0x82], [CHR 0xE2, CHR 0x80, CHR 0x83],
     [CHR 0xE2, CHR 0x80, CHR 0x84], [CHR 0xE2, CHR 0x80, CHR 0x85],
     [CHR 0xE2, CHR 0x80, CHR 0x86], [CHR 0xE2, CHR 0x80, CHR 0x87],
     [CHR 0xE2, CHR 0x80, CHR 0x88], [CHR 0xE2, CHR 0x80, CHR 0x89],
     [CHR 0xE2, CHR 0x80, CHR 0x8A],
     [CHR 0xE2, CHR 0x80, CHR 0xA8], [CHR 0xE2, CHR 0x80, CHR 0xA9],
     [CHR 0xE2, CHR 0x80, CHR 0xAF], [CHR 0xE2, CHR 0x81, CHR 0x9F],
     [CHR 0xE3, CHR 0x80, CHR 0x80]]"

text \<open>The width of the rune of \<open>rs\<close> that \<open>s\<close> starts with, 0 when there is none.\<close>

definition leadingWidth :: "string list \<Rightarrow> string \<Rightarrow> nat" where
  "leadingWidth rs s = (case find (\<lambda>r. prefix r s) rs of None \<Rightarrow> 0 | Some r \<Rightarrow> length r)"

function trimLeading :: "string list \<Rightarrow> string \<Rightarrow> string" where
  "trimLeading rs s =
     (if leadingWidth rs s = 0 then s else trimLeading rs (drop (leadingWidth rs s) s))"
  by pat_completeness auto
termination
proof (relation "measure (\<lambda>(rs, s). length s)")
  show "wf (measure (\<lambda>(rs, s). length s))" by simp
next
  fix rs :: "string list" and s :: string
  assume w: "leadingWidth rs s \<noteq> 0"
  then obtain r where r: "find (\<lambda>r. prefix r s) rs = Some r" and len: "length r \<noteq> 0"
    by (auto simp: leadingWidth_def split: option.splits)
  from r have "prefix r s" by (auto simp: find_Some_iff)
  with len have "s \<noteq> []" by auto
  with w show "((rs, drop (leadingWidth rs s) s), (rs, s)) \<in> measure (\<lambda>(rs, s). length s)"
    by simp
qed

declare trimLeading.simps [simp del]

definition TrimLeftSpace :: "string \<Rightarrow> string" where
  "TrimLeftSpace s = trimLeading spaceRunes s"

definition TrimRightSpace :: "string \<Rightarrow> string" where
  "TrimRightSpace s = rev (trimLeading (map rev spaceRunes) (rev s))"

definition TrimSpace :: "string \<Rightarrow> string" where
  "TrimSpace s = TrimRightSpace (TrimLeftSpace s)"

text \<open>\<open>strings.Count(s, ".")\<close>: the number of occurrences of the byte.\<close>

definition Count :: "string \<Rightarrow> char \<Rightarrow> nat" where
  "Count s c = length (filter (\<lambda>x. x = c) s)"

section \<open>Request context and auth-data extraction strategies\<close>

text \<open>
  Modelled from the spec: \<open>handler.RequestContext\<close> is an interface declared outside the
  sources modelled here (section 6: read-only accessors for headers, cookies, query parameters,
  form parameters and body). A request holds its headers, query and form parameters as
  finite maps from names to values; an accessor returns a plain string, so a name the
  request does not carry reads as the empty string.
\<close>

record RequestContext =
  headers :: "(string \<times> string) list"
  query_params :: "(string \<times> string) list"
  form_params :: "(string \<times> string) list"

definition Header :: "RequestContext \<Rightarrow> string \<Rightarrow> string" where
  "Header s name = (case map_of (headers s) name of None \<Rightarrow> [] | Some v \<Rightarrow> v)"

definition Query :: "RequestContext \<Rightarrow> string \<Rightarrow> string" where
  "Query s name = (case map_of (query_params s) name of None \<Rightarrow> [] | Some v \<Rightarrow> v)"

definition Form :: "RequestContext \<Rightarrow> string \<Rightarrow> string" where
  "Form s name = (case map_of (form_params s) name of None \<Rightarrow> [] | Some v \<Rightarrow> v)"

text \<open>
  The strategies are struct values (a name and a prefix; the composite is a slice of
  strategies).
\<close>

datatype AuthDataExtractStrategy =
    HeaderValueExtractStrategy string string
  | FormParameterExtractStrategy string string
  | QueryParameterExtractStrategy string string
  | CompositeExtractStrategy "AuthDataExtractStrategy list"

text \<open>
  \<open>QueryParameterExtractStrategy.GetAuthData\<close> (the strategy whose code is among the
  sources): a non-empty value is returned with the prefix removed and then trimmed;
  anything else is the \<open>ErrAuthData\<close> error with its message.
\<close>

definition Query_GetAuthData :: "string \<Rightarrow> string \<Rightarrow> RequestContext \<Rightarrow> error + string" where
  "Query_GetAuthData Name Prefix s =
     (let val = Query s Name in
      if length val \<noteq> 0 then Inr (TrimSpace (TrimPrefix val Prefix))
      else Inl (ErrAuthData (''no '' @ [CHR 0x27] @ Name @ [CHR 0x27] @ '' query parameter present'')))"

text \<open>
  Modelled from the spec: the header, form and composite strategies are not among the
  sources. Section 4.3: the header and form strategies read the named header or
  parameter, strip the configured prefix, trim whitespace and fail when it is absent;
  the composite tries its strategies in order, returns the first success and fails
  only when all of them fail.
\<close>

definition Header_GetAuthData :: "string \<Rightarrow> string \<Rightarrow> RequestContext \<Rightarrow> error + string" where
  "Header_GetAuthData Name Prefix s =
     (let val = Header s Name in
      if length val \<noteq> 0 then Inr (TrimSpace (TrimPrefix val Prefix))
      else Inl (ErrAuthData (''no '' @ [CHR 0x27] @ Name @ [CHR 0x27] @ '' header present'')))"

definition Form_GetAuthData :: "string \<Rightarrow> string \<Rightarrow> RequestContext \<Rightarrow> error + string" where
  "Form_GetAuthData Name Prefix s =
     (let val = Form s Name in
      if length val \<noteq> 0 then Inr (TrimSpace (TrimPrefix val Prefix))
      else Inl (ErrAuthData (''no '' @ [CHR 0x27] @ Name @ [CHR 0x27] @ '' form parameter present'')))"

fun GetAuthData :: "AuthDataExtractStrategy \<Rightarrow> RequestContext \<Rightarrow> error + string"
  and Composite_GetAuthData :: "AuthDataExtractStrategy list \<Rightarrow> RequestContext \<Rightarrow> error + string"
where
  "GetAuthData (HeaderValueExtractStrategy Name Prefix) s = Header_GetAuthData Name Prefix s"
| "GetAuthData (FormParameterExtractStrategy Name Prefix) s = Form_GetAuthData Name Prefix s"
| "GetAuthData (QueryParameterExtractStrategy Name Prefix) s = Query_GetAuthData Name Prefix s"
| "GetAuthData (CompositeExtractStrategy ess) s = Composite_GetAuthData ess s"
| "Composite_GetAuthData [] s = Inl (ErrAuthData ''no authentication data present'')"
| "Composite_GetAuthData (es # ess) s =
     (case GetAuthData es s of Inr v \<Rightarrow> Inr v | Inl err \<Rightarrow> Composite_GetAuthData ess s)"

section \<open>JSON values and the subject extractor\<close>

text \<open>
  A JSON document, and every raw slice of one, is represented by the value it spells.
  \<open>gjson.Result.Raw\<close> is the raw text of the value found at a path and the empty string
  when the path does not exist: a raw text is a \<open>json option\<close>, \<open>None\<close> being the empty
  text, and the literal \<open>"null"\<close> is \<open>Some JNull\<close>.
\<close>

datatype json =
    JNull
  | JBool bool
  | JNumber string
  | JString string
  | JArray "json list"
  | JObject "(string \<times> json) list"

type_synonym raw = "json option"

text \<open>
  Modelled from the spec: \<open>stringsx.Coalesce\<close> is a helper of this repository that is not
  among the sources (section 4.5 calls the result null-coalesced). It returns the first
  of its arguments that is not the empty string, and the empty string when there is none.
\<close>

fun Coalesce :: "raw list \<Rightarrow> raw" where
  "Coalesce [] = None"
| "Coalesce (None # vs) = Coalesce vs"
| "Coalesce (Some v # vs) = Some v"

text \<open>
  What \<open>json.Unmarshal\<close> stores in an \<open>interface{}\<close>: \<open>nil\<close>, a \<open>bool\<close>, a \<open>float64\<close>
  (a rational), a \<open>string\<close>, a \<open>[]interface{}\<close> or a \<open>map[string]interface{}\<close>. A map is
  kept as the list of its entries, one per key.
\<close>

datatype gov =
    VNil
  | VBool bool
  | VFloat rat
  | VString string
  | VSlice "gov list"
  | VMap "(string \<times> gov) list"

text \<open>Storing under a key replaces the entry the map has for it.\<close>

fun put :: "string \<Rightarrow> 'v \<Rightarrow> (string \<times> 'v) list \<Rightarrow> (string \<times> 'v) list" where
  "put k v [] = [(k, v)]"
| "put k v ((k', v') # kvs) = (if k = k' then (k, v) # kvs else (k', v') # put k v kvs)"

text \<open>
  The scanner of \<open>encoding/json\<close> refuses a text nested deeper than 10000 arrays and
  objects.
\<close>

fun depth :: "json \<Rightarrow> nat"
  and depthList :: "json list \<Rightarrow> nat"
  and depthMembers :: "(string \<times> json) list \<Rightarrow> nat"
where
  "depth JNull = 0"
| "depth (JBool b) = 0"
| "depth (JNumber n) = 0"
| "depth (JString s) = 0"
| "depth (JArray vs) = Suc (depthList vs)"
| "depth (JObject kvs) = Suc (depthMembers kvs)"
| "depthList [] = 0"
| "depthList (v # vs) = max (depth v) (depthList vs)"
| "depthMembers [] = 0"
| "depthMembers ((k, v) # kvs) = max (depth v) (depthMembers kvs)"

definition maxNestingDepth :: nat where
  "maxNestingDepth = 10000"

definition checkValid :: "raw \<Rightarrow> error + json" where
  "checkValid data =
     (case data of
        None \<Rightarrow> Inl (SyntaxError ''unexpected end of JSON input'')
      | Some v \<Rightarrow>
          if depth v > maxNestingDepth then Inl (SyntaxError ''exceeded max depth'')
          else Inr v)"

text \<open>
  Decoding into an \<open>interface{}\<close>. \<open>strconv.ParseFloat\<close> is a library function:
  \<open>parseFloat\<close> stands for it on a number literal, and \<open>None\<close> is its range error, which
  the decoder reports as a type error. The decoder keeps the first error it meets and
  returns it at the end; a later value of a key replaces an earlier one.
\<close>

fun valueInterface :: "(string \<Rightarrow> rat option) \<Rightarrow> json \<Rightarrow> error + gov"
  and arrayInterface :: "(string \<Rightarrow> rat option) \<Rightarrow> json list \<Rightarrow> error + gov list"
  and objectInterface ::
    "(string \<Rightarrow> rat option) \<Rightarrow> (string \<times> json) list \<Rightarrow> (string \<times> gov) list \<Rightarrow>
     error + (string \<times> gov) list"
where
  "valueInterface parseFloat JNull = Inr VNil"
| "valueInterface parseFloat (JBool b) = Inr (VBool b)"
| "valueInterface parseFloat (JNumber n) =
     (case parseFloat n of
        None \<Rightarrow> Inl (UnmarshalTypeError (''number '' @ n) ''float64'')
      | Some f \<Rightarrow> Inr (VFloat f))"
| "valueInterface parseFloat (JString s) = Inr (VString s)"
| "valueInterface parseFloat (JArray vs) =
     (case arrayInterface parseFloat vs of Inl err \<Rightarrow> Inl err | Inr xs \<Rightarrow> Inr (VSlice xs))"
| "valueInterface parseFloat (JObject kvs) =
     (case objectInterface parseFloat kvs [] of Inl err \<Rightarrow> Inl err | Inr m \<Rightarrow> Inr (VMap m))"
| "arrayInterface parseFloat [] = Inr []"
| "arrayInterface parseFloat (v # vs) =
     (case valueInterface parseFloat v of
        Inl err \<Rightarrow> Inl err
      | Inr x \<Rightarrow>
         (case arrayInterface parseFloat vs of Inl err \<Rightarrow> Inl err | Inr xs \<Rightarrow> Inr (x # xs)))"
| "objectInterface parseFloat [] m = Inr m"
| "objectInterface parseFloat ((k, v) # kvs) m =
     (case valueInterface parseFloat v of
        Inl err \<Rightarrow> Inl err
      | Inr x \<Rightarrow> objectInterface parseFloat kvs (put k x m))"

text \<open>The number literals of a value, in the order of the text.\<close>

fun numbers :: "json \<Rightarrow> string list"
  and numbersList :: "json list \<Rightarrow> string list"
  and numbersMembers :: "(string \<times> json) list \<Rightarrow> string list"
where
  "numbers JNull = []"
| "numbers (JBool b) = []"
| "numbers (JNumber n) = [n]"
| "numbers (JString s) = []"
| "numbers (JArray vs) = numbersList vs"
| "numbers (JObject kvs) = numbersMembers kvs"
| "numbersList [] = []"
| "numbersList (v # vs) = numbers v @ numbersList vs"
| "numbersMembers [] = []"
| "numbersMembers ((k, v) # kvs) = numbers v @ numbersMembers kvs"

text \<open>
  \<open>json.Unmarshal\<close> into a \<open>string\<close> variable and into a \<open>map[string]interface{}\<close>
  variable, as package \<open>encoding/json\<close> documents it: the text is checked first (the empty
  input is a syntax error); \<open>null\<close> leaves a string variable as it is and sets a map to
  \<open>nil\<close>, with no error; a value of another kind than the variable's is an
  \<open>UnmarshalTypeError\<close>; an object is stored member by member in a new map. The functions
  return the variable's new value.
\<close>

fun kindOf :: "json \<Rightarrow> string" where
  "kindOf JNull = ''null''"
| "kindOf (JBool b) = ''bool''"
| "kindOf (JNumber n) = ''number''"
| "kindOf (JString s) = ''string''"
| "kindOf (JArray vs) = ''array''"
| "kindOf (JObject kvs) = ''object''"

definition Unmarshal_string :: "raw \<Rightarrow> string \<Rightarrow> error + string" where
  "Unmarshal_string data var =
     (case checkValid data of
        Inl err \<Rightarrow> Inl err
      | Inr v \<Rightarrow>
         (case v of
            JNull \<Rightarrow> Inr var
          | JString s \<Rightarrow> Inr s
          | _ \<Rightarrow> Inl (UnmarshalTypeError (kindOf v) ''string'')))"

type_synonym attributes = "(string \<times> gov) list option"

definition Unmarshal_map :: "(string \<Rightarrow> rat option) \<Rightarrow> raw \<Rightarrow> attributes \<Rightarrow> error + attributes" where
  "Unmarshal_map parseFloat data var =
     (case checkValid data of
        Inl err \<Rightarrow> Inl err
      | Inr v \<Rightarrow>
         (case v of
            JNull \<Rightarrow> Inr None
          | JObject kvs \<Rightarrow>
             (case objectInterface parseFloat kvs (case var of None \<Rightarrow> [] | Some m \<Rightarrow> m) of
                Inl err \<Rightarrow> Inl err
              | Inr m \<Rightarrow> Inr (Some m))
          | _ \<Rightarrow> Inl (UnmarshalTypeError (kindOf v) ''map[string]interface {}'')))"

record Subject =
  Id' :: string
  Attributes :: attributes

record Session =
  SubjectFrom :: string
  AttributesFrom :: string

text \<open>
  \<open>Session.GetSubject\<close>. \<open>gjson.GetBytes\<close> is a library function: \<open>get\<close> stands for it
  and gives the raw text found in the document at a path. The two variables start at
  their zero values, the empty string and the \<open>nil\<close> map.
\<close>

definition GetSubject ::
  "(string \<Rightarrow> rat option) \<Rightarrow> ('doc \<Rightarrow> string \<Rightarrow> raw) \<Rightarrow> Session \<Rightarrow> 'doc \<Rightarrow> error + Subject" where
  "GetSubject parseFloat get s rawData =
     (let rawSubjectId = Coalesce [get rawData (SubjectFrom s), Some JNull] in
      case Unmarshal_string rawSubjectId [] of
        Inl err \<Rightarrow>
          Inl (WrapError ''configured subject_from GJSON path returned an error on JSON output: '' err)
      | Inr subjectId \<Rightarrow>
         (let rawAttributes = Coalesce [get rawData (AttributesFrom s), Some JNull] in
          case Unmarshal_map parseFloat rawAttributes None of
            Inl err \<Rightarrow>
              Inl (WrapError ''configured attributes_from GJSON path returned an error on JSON output: '' err)
          | Inr attributes \<Rightarrow> Inr \<lparr>Id' = subjectId, Attributes = attributes\<rparr>))"

text \<open>
  A \<open>get\<close> for the plain paths: the path names a member of the top-level object
  (the first member of that name, as gjson finds it).
\<close>

definition memberGet :: "json \<Rightarrow> string \<Rightarrow> raw" where
  "memberGet doc path = (case doc of JObject kvs \<Rightarrow> map_of kvs path | _ \<Rightarrow> None)"

section \<open>Rules\<close>

record SubjectContext =
  Subject :: "Subject option"

text \<open>
  The pipeline stages are interface values, and calling one is an effect: a stage may
  call out to the network, and it may change the subject context through the pointer it
  is handed. A stage is a function of the request, the subject context and the state
  \<open>'w\<close> of everything else it can touch; it returns its error (or \<open>nil\<close>), the subject
  context and that state as it leaves them. The error handler maps an error to the error
  \<open>Execute\<close> returns (\<open>nil\<close> suppresses it). The \<open>context.Context\<close> argument is left out.
\<close>

type_synonym 'w Authenticator =
  "RequestContext \<Rightarrow> SubjectContext \<Rightarrow> 'w \<Rightarrow> (error option \<times> SubjectContext) \<times> 'w"
type_synonym 'w Authorizer =
  "RequestContext \<Rightarrow> SubjectContext \<Rightarrow> 'w \<Rightarrow> (error option \<times> SubjectContext) \<times> 'w"
type_synonym 'w Hydrator = "SubjectContext \<Rightarrow> 'w \<Rightarrow> (error option \<times> SubjectContext) \<times> 'w"
type_synonym 'w Mutator = "SubjectContext \<Rightarrow> 'w \<Rightarrow> (error option \<times> SubjectContext) \<times> 'w"
type_synonym 'w ErrorHandler = "error \<Rightarrow> 'w \<Rightarrow> error option \<times> 'w"

text \<open>The fields of \<open>rule\<close> carry the prefix \<open>rule_\<close>: \<open>id\<close>, \<open>h\<close> and \<open>m\<close> would clash.\<close>

record 'w rule =
  rule_id :: string
  rule_url :: string
  rule_methods :: "string list"
  rule_srcID :: string
  rule_an :: "'w Authenticator"
  rule_az :: "'w Authorizer"
  rule_h :: "'w Hydrator"
  rule_m :: "'w Mutator"
  rule_eh :: "'w ErrorHandler"

text \<open>
  \<open>Execute\<close> returns its two results and the state as the calls it made leave it.
\<close>

definition Execute ::
  "'w rule \<Rightarrow> RequestContext \<Rightarrow> 'w \<Rightarrow> (SubjectContext option \<times> error option) \<times> 'w" where
  "Execute r reqCtx w =
     (let subjectCtx = \<lparr>Subject = None\<rparr> in
      case rule_an r reqCtx subjectCtx w of
        ((Some err, sc1), w1) \<Rightarrow> (case rule_eh r err w1 of (res, w') \<Rightarrow> ((None, res), w'))
      | ((None, sc1), w1) \<Rightarrow>
     (case rule_az r reqCtx sc1 w1 of
        ((Some err, sc2), w2) \<Rightarrow> (case rule_eh r err w2 of (res, w') \<Rightarrow> ((None, res), w'))
      | ((None, sc2), w2) \<Rightarrow>
     (case rule_h r sc2 w2 of
        ((Some err, sc3), w3) \<Rightarrow> (case rule_eh r err w3 of (res, w') \<Rightarrow> ((None, res), w'))
      | ((None, sc3), w3) \<Rightarrow>
     (case rule_m r sc3 w3 of
        ((Some err, sc4), w4) \<Rightarrow> (case rule_eh r err w4 of (res, w') \<Rightarrow> ((None, res), w'))
      | ((None, sc4), w4) \<Rightarrow> ((Some sc4, None), w4)))))"

text \<open>
  To observe which stages a run calls, and in which order, the state is taken to be the
  log of the calls made so far. A rule records when each of its stages behaves as a
  given function of its arguments and appends its own call to the log; the rule's id,
  url, methods and source are any.
\<close>

datatype call =
    CallAuthenticate
  | CallAuthorize
  | CallHydrate
  | CallMutate
  | CallHandleError error

definition records ::
  "(call list) rule \<Rightarrow>
   (RequestContext \<Rightarrow> SubjectContext \<Rightarrow> error option \<times> SubjectContext) \<Rightarrow>
   (RequestContext \<Rightarrow> SubjectContext \<Rightarrow> error option \<times> SubjectContext) \<Rightarrow>
   (SubjectContext \<Rightarrow> error option \<times> SubjectContext) \<Rightarrow>
   (SubjectContext \<Rightarrow> error option \<times> SubjectContext) \<Rightarrow>
   (error \<Rightarrow> error option) \<Rightarrow> bool" where
  "records q an az h m eh \<longleftrightarrow>
     rule_an q = (\<lambda>reqCtx sc w. (an reqCtx sc, w @ [CallAuthenticate])) \<and>
     rule_az q = (\<lambda>reqCtx sc w. (az reqCtx sc, w @ [CallAuthorize])) \<and>
     rule_h q = (\<lambda>sc w. (h sc, w @ [CallHydrate])) \<and>
     rule_m q = (\<lambda>sc w. (m sc, w @ [CallMutate])) \<and>
     rule_eh q = (\<lambda>err w. (eh err, w @ [CallHandleError err]))"

definition recordingRule ::
  "string \<Rightarrow> string \<Rightarrow> string list \<Rightarrow> string \<Rightarrow>
   (RequestContext \<Rightarrow> SubjectContext \<Rightarrow> error option \<times> SubjectContext) \<Rightarrow>
   (RequestContext \<Rightarrow> SubjectContext \<Rightarrow> error option \<times> SubjectContext) \<Rightarrow>
   (SubjectContext \<Rightarrow> error option \<times> SubjectContext) \<Rightarrow>
   (SubjectContext \<Rightarrow> error option \<times> SubjectContext) \<Rightarrow>
   (error \<Rightarrow> error option) \<Rightarrow> (call list) rule" where
  "recordingRule name url methods src an az h m eh =
     \<lparr>rule_id = name, rule_url = url, rule_methods = methods, rule_srcID = src,
      rule_an = (\<lambda>reqCtx sc w. (an reqCtx sc, w @ [CallAuthenticate])),
      rule_az = (\<lambda>reqCtx sc w. (az reqCtx sc, w @ [CallAuthorize])),
      rule_h = (\<lambda>sc w. (h sc, w @ [CallHydrate])),
      rule_m = (\<lambda>sc w. (m sc, w @ [CallMutate])),
      rule_eh = (\<lambda>err w. (eh err, w @ [CallHandleError err]))\<rparr>"

definition MatchesURL :: "'w rule \<Rightarrow> string \<Rightarrow> bool" where
  "MatchesURL r requestURL = True"

text \<open>\<open>slices.Contains\<close> walks the slice and stops at the first element equal to \<open>v\<close>.\<close>

fun Contains :: "'a list \<Rightarrow> 'a \<Rightarrow> bool" where
  "Contains [] v = False"
| "Contains (x # xs) v = (if v = x then True else Contains xs v)"

definition MatchesMethod :: "'w rule \<Rightarrow> string \<Rightarrow> bool" where
  "MatchesMethod r method = Contains (rule_methods r) method"

section \<open>Rule repository\<close>

text \<open>
  Modelled from the spec: \<open>config.RuleConfig\<close> is declared outside the sources
  (section 6: \<open>id\<close>, \<open>url\<close>, \<open>methods\<close> and one configuration block per stage). A block is
  kept as its raw text.
\<close>

record RuleConfig =
  ID :: string
  URL :: string
  Methods :: "string list"
  Authenticators :: string
  Authorizer :: string
  Hydrators :: string
  Mutators :: string
  ErrorHandlers :: string

text \<open>
  The handler factory is an external collaborator: each of its five constructors
  returns a stage or a construction error.
\<close>

record 'w HandlerFactory =
  CreateAuthenticator :: "string \<Rightarrow> error + 'w Authenticator"
  CreateAuthorizer :: "string \<Rightarrow> error + 'w Authorizer"
  CreateHydrator :: "string \<Rightarrow> error + 'w Hydrator"
  CreateMutator :: "string \<Rightarrow> error + 'w Mutator"
  CreateErrorHandler :: "string \<Rightarrow> error + 'w ErrorHandler"

text \<open>
  The repository: its handler factory and its rules. The logger, the default pipeline
  configuration, the lock, the queue and the quit channel are left out; the events are
  processed one after the other, as the single watcher does.
\<close>

record 'w repository =
  hf :: "'w HandlerFactory"
  rules :: "'w rule list"

datatype ChangeType = Create | Remove

record RuleSetChangedEvent =
  Src :: string
  ChangeType :: ChangeType
  Definition :: string

definition FindRule :: "'w repository \<Rightarrow> string \<Rightarrow> error + 'w rule" where
  "FindRule r requestURL =
     (case find (\<lambda>rule. MatchesURL rule requestURL) (rules r) of
        Some rule \<Rightarrow> Inr rule
      | None \<Rightarrow> Inl ErrNoRuleFound)"

definition newRule :: "'w repository \<Rightarrow> string \<Rightarrow> RuleConfig \<Rightarrow> error + 'w rule" where
  "newRule r srcID ruleConfig =
     (case CreateAuthenticator (hf r) (Authenticators ruleConfig) of Inl err \<Rightarrow> Inl err
      | Inr authenticator \<Rightarrow>
     (case CreateAuthorizer (hf r) (Authorizer ruleConfig) of Inl err \<Rightarrow> Inl err
      | Inr authorizer \<Rightarrow>
     (case CreateHydrator (hf r) (Hydrators ruleConfig) of Inl err \<Rightarrow> Inl err
      | Inr hydrator \<Rightarrow>
     (case CreateMutator (hf r) (Mutators ruleConfig) of Inl err \<Rightarrow> Inl err
      | Inr mutator \<Rightarrow>
     (case CreateErrorHandler (hf r) (ErrorHandlers ruleConfig) of Inl err \<Rightarrow> Inl err
      | Inr errorHandler \<Rightarrow>
          Inr \<lparr>rule_id = ID ruleConfig, rule_url = URL ruleConfig,
               rule_methods = Methods ruleConfig, rule_srcID = srcID,
               rule_an = authenticator, rule_az = authorizer, rule_h = hydrator,
               rule_m = mutator, rule_eh = errorHandler\<rparr>)))))"

text \<open>
  \<open>yaml.UnmarshalStrict\<close> is a library function: \<open>yaml\<close> stands for it on rule-set
  definitions.
\<close>

definition parseRuleSetFromYaml ::
  "(string \<Rightarrow> error + RuleConfig list) \<Rightarrow> string \<Rightarrow> error + RuleConfig list" where
  "parseRuleSetFromYaml yaml data = (case yaml data of Inl err \<Rightarrow> Inl err | Inr rcs \<Rightarrow> Inr rcs)"

text \<open>
  The loop of \<open>loadRules\<close>: the configurations still to build and the rules built so
  far; the first construction error ends it.
\<close>

fun loadLoop ::
  "'w repository \<Rightarrow> string \<Rightarrow> RuleConfig list \<Rightarrow> 'w rule list \<Rightarrow> error + 'w rule list" where
  "loadLoop r srcID [] built = Inr built"
| "loadLoop r srcID (rc # rcs) built =
     (case newRule r srcID rc of
        Inl err \<Rightarrow> Inl err
      | Inr rule \<Rightarrow> loadLoop r srcID rcs (built @ [rule]))"

text \<open>\<open>loadRules\<close> returns both of its results; \<open>nil, err\<close> is the empty slice and the error.\<close>

definition loadRules ::
  "(string \<Rightarrow> error + RuleConfig list) \<Rightarrow> 'w repository \<Rightarrow> string \<Rightarrow> string \<Rightarrow>
   'w rule list \<times> error option" where
  "loadRules yaml r srcID definition =
     (case parseRuleSetFromYaml yaml definition of
        Inl err \<Rightarrow> ([], Some err)
      | Inr rcs \<Rightarrow>
         (case loadLoop r srcID rcs [] of
            Inl err \<Rightarrow> ([], Some err)
          | Inr built \<Rightarrow> (built, None)))"

definition addRule :: "'w repository \<Rightarrow> 'w rule \<Rightarrow> 'w repository" where
  "addRule r rule = r\<lparr>rules := rules r @ [rule]\<rparr>"

text \<open>\<open>removeRules\<close> logs and returns: its body is the comment \<open>TODO: implement remove rule\<close>.\<close>

definition removeRules :: "'w repository \<Rightarrow> string \<Rightarrow> 'w repository" where
  "removeRules r srcID = r"

text \<open>
  \<open>onRuleSetCreated\<close> logs a loading error and goes on to add the rules it was handed.
\<close>

definition onRuleSetCreated ::
  "(string \<Rightarrow> error + RuleConfig list) \<Rightarrow> 'w repository \<Rightarrow> string \<Rightarrow> string \<Rightarrow> 'w repository" where
  "onRuleSetCreated yaml r srcID definition =
     (case loadRules yaml r srcID definition of (loaded, err) \<Rightarrow> foldl addRule r loaded)"

definition onRuleSetDeleted :: "'w repository \<Rightarrow> string \<Rightarrow> 'w repository" where
  "onRuleSetDeleted r src = removeRules r src"

text \<open>
  \<open>watchRuleSetChanges\<close> on the events the queue delivers before the quit signal: one
  event is one round of its loop.
\<close>

definition onEvent ::
  "(string \<Rightarrow> error + RuleConfig list) \<Rightarrow> 'w repository \<Rightarrow> RuleSetChangedEvent \<Rightarrow> 'w repository" where
  "onEvent yaml r evt =
     (if ChangeType evt = Create then onRuleSetCreated yaml r (Src evt) (Definition evt)
      else if ChangeType evt = Remove then onRuleSetDeleted r (Src evt)
      else r)"

definition watchRuleSetChanges ::
  "(string \<Rightarrow> error + RuleConfig list) \<Rightarrow> 'w repository \<Rightarrow> RuleSetChangedEvent list \<Rightarrow>
   'w repository" where
  "watchRuleSetChanges yaml r evts = foldl (onEvent yaml) r evts"

section \<open>JWT authenticator\<close>

text \<open>The endpoint's fields carry the prefix \<open>ep_\<close>; a \<open>nil\<close> header map is \<open>None\<close>.\<close>

record Endpoint =
  ep_URL :: string
  ep_Method :: string
  ep_Headers :: "(string \<times> string) list option"

text \<open>
  Modelled from the spec: \<open>oauth2.Expectation\<close> is declared outside the sources.
  Section 3: the assertion policy holds the allowed signature algorithms, the expected
  issuer, audiences and scopes and the clock-skew tolerance; section 4.4, step 5: the
  located key's algorithm is checked against the allow-list.
\<close>

record Expectation =
  AllowedAlgorithms :: "string list"
  TrustedIssuer :: string
  TargetAudiences :: "string list"
  ScopesRequired :: "string list"
  ValidityLeeway :: int

definition IsAlgorithmAllowed :: "Expectation \<Rightarrow> string \<Rightarrow> bool" where
  "IsAlgorithmAllowed expectation alg = (alg \<in> set (AllowedAlgorithms expectation))"

text \<open>The signature algorithm names of go-jose.\<close>

definition ES256 :: string where "ES256 = ''ES256''"
definition ES384 :: string where "ES384 = ''ES384''"
definition ES512 :: string where "ES512 = ''ES512''"
definition PS256 :: string where "PS256 = ''PS256''"
definition PS384 :: string where "PS384 = ''PS384''"
definition PS512 :: string where "PS512 = ''PS512''"

text \<open>
  The asymmetric signature algorithms of JSON Web Algorithms (RFC 7518 and RFC 8037):
  RSA PKCS1, ECDSA, RSA-PSS and EdDSA. The symmetric ones are \<open>HS256\<close>, \<open>HS384\<close> and
  \<open>HS512\<close>; \<open>none\<close> is the unsecured one.
\<close>

definition asymmetricAlgorithms :: "string list" where
  "asymmetricAlgorithms =
     [''RS256'', ''RS384'', ''RS512'', ''ES256'', ''ES384'', ''ES512'',
      ''PS256'', ''PS384'', ''PS512'', ''EdDSA'']"

text \<open>The key set, the keys and a parsed token's headers, as go-jose has them.\<close>

record JSONWebKey =
  KeyID :: string
  Algorithm :: string

record JSONWebKeySet =
  Keys :: "JSONWebKey list"

definition Key :: "JSONWebKeySet \<Rightarrow> string \<Rightarrow> JSONWebKey list" where
  "Key s kid = filter (\<lambda>key. KeyID key = kid) (Keys s)"

record jose_Header =
  hdr_KeyID :: string
  hdr_Algorithm :: string

record JSONWebToken =
  Headers :: "jose_Header list"
  compact :: string

text \<open>The \<open>_config\<close> struct of \<open>NewJwtAuthenticatorFromYAML\<close>; a \<open>nil\<close> strategy is \<open>None\<close>.\<close>

record jwt_config =
  cfg_Endpoint :: Endpoint
  cfg_AuthDataSource :: "AuthDataExtractStrategy option"
  cfg_JwtAssertions :: Expectation
  cfg_Session :: Session

text \<open>The fields of \<open>jwtAuthenticator\<close> carry the prefix \<open>jwt_\<close>.\<close>

record jwtAuthenticator =
  jwt_e :: Endpoint
  jwt_a :: Expectation
  jwt_se :: Session
  jwt_adg :: AuthDataExtractStrategy

text \<open>
  What the authenticator calls outside these sources: the YAML decoder on a
  configuration and on a rule-level override (the override's \<open>_config\<close> has the one field
  \<open>JwtAssertions\<close>), the validation of the assertions and of the endpoint, the request to
  the key-set endpoint, the JSON decoder on the key set, go-jose's token parser and its
  signature check that decodes the claims, the validation of the claims against the
  assertions, gjson and \<open>strconv.ParseFloat\<close>.
\<close>

record externals =
  UnmarshalStrict_config :: "string \<Rightarrow> error + jwt_config"
  Unmarshal_override :: "string \<Rightarrow> error + Expectation"
  Expectation_Validate :: "Expectation \<Rightarrow> error option"
  Endpoint_Validate :: "Endpoint \<Rightarrow> error option"
  SendRequest :: "Endpoint \<Rightarrow> error + string"
  Unmarshal_jwks :: "string \<Rightarrow> error + JSONWebKeySet"
  ParseSigned :: "string \<Rightarrow> error + JSONWebToken"
  Claims :: "JSONWebToken \<Rightarrow> JSONWebKeySet \<Rightarrow> error + (string \<times> json) list"
  Claims_Validate :: "(string \<times> json) list \<Rightarrow> Expectation \<Rightarrow> error option"
  gjson_GetBytes :: "json \<Rightarrow> string \<Rightarrow> raw"
  ParseFloat :: "string \<Rightarrow> rat option"

text \<open>
  Authenticators are handed around by pointer. The heap holds the authenticators
  allocated so far; a pointer is an index into it, and \<open>&jwtAuthenticator{...}\<close> allocates
  the next one. Reading through a pointer that is not allocated (\<open>nil\<close>) panics.
\<close>

type_synonym heap = "jwtAuthenticator list"
type_synonym ptr = nat

definition alloc :: "heap \<Rightarrow> jwtAuthenticator \<Rightarrow> ptr \<times> heap" where
  "alloc hp v = (length hp, hp @ [v])"

definition deref :: "heap \<Rightarrow> ptr \<Rightarrow> jwtAuthenticator option" where
  "deref hp p = (if p < length hp then Some (hp ! p) else None)"

definition defaultAlgorithms :: "string list" where
  "defaultAlgorithms = [ES256, ES384, ES512, PS256, PS384, PS512]"

definition defaultStrategy :: AuthDataExtractStrategy where
  "defaultStrategy =
     CompositeExtractStrategy
       [HeaderValueExtractStrategy ''Authorization'' ''Bearer'',
        FormParameterExtractStrategy ''access_token'' [],
        QueryParameterExtractStrategy ''access_token'' []]"

text \<open>The four defaults \<open>NewJwtAuthenticatorFromYAML\<close> fills in, each as the source writes it.\<close>

definition withDefaultHeaders :: "Endpoint \<Rightarrow> Endpoint" where
  "withDefaultHeaders ep =
     (let hs = (case ep_Headers ep of None \<Rightarrow> [] | Some hs \<Rightarrow> hs) in
      ep\<lparr>ep_Headers :=
           Some (case map_of hs ''Accept-Type'' of
                   None \<Rightarrow> hs @ [(''Accept-Type'', ''application/json'')]
                 | Some v \<Rightarrow> hs)\<rparr>)"

definition withDefaultMethod :: "Endpoint \<Rightarrow> Endpoint" where
  "withDefaultMethod ep = (if length (ep_Method ep) = 0 then ep\<lparr>ep_Method := ''GET''\<rparr> else ep)"

definition withDefaultAlgorithms :: "Expectation \<Rightarrow> Expectation" where
  "withDefaultAlgorithms expectation =
     (if length (AllowedAlgorithms expectation) = 0
      then expectation\<lparr>AllowedAlgorithms := defaultAlgorithms\<rparr>
      else expectation)"

definition withDefaultSubjectFrom :: "Session \<Rightarrow> Session" where
  "withDefaultSubjectFrom s = (if length (SubjectFrom s) = 0 then s\<lparr>SubjectFrom := ''sub''\<rparr> else s)"

definition NewJwtAuthenticatorFromYAML :: "externals \<Rightarrow> heap \<Rightarrow> string \<Rightarrow> (error + ptr) \<times> heap" where
  "NewJwtAuthenticatorFromYAML X hp rawConfig =
     (case UnmarshalStrict_config X rawConfig of
        Inl err \<Rightarrow> (Inl err, hp)
      | Inr conf \<Rightarrow>
     (case Expectation_Validate X (cfg_JwtAssertions conf) of
        Some err \<Rightarrow>
          (Inl (ArgumentError ''failed to validate assertions configuration'' err), hp)
      | None \<Rightarrow>
     (let endpoint = withDefaultMethod (withDefaultHeaders (cfg_Endpoint conf));
          assertions = withDefaultAlgorithms (cfg_JwtAssertions conf) in
      case Endpoint_Validate X endpoint of
        Some err \<Rightarrow>
          (Inl (ArgumentError ''failed to validate endpoint configuration'' err), hp)
      | None \<Rightarrow>
     (let session = withDefaultSubjectFrom (cfg_Session conf);
          adg = (case cfg_AuthDataSource conf of None \<Rightarrow> defaultStrategy | Some es \<Rightarrow> es) in
      case alloc hp \<lparr>jwt_e = endpoint, jwt_a = assertions, jwt_se = session, jwt_adg = adg\<rparr> of
        (p, hp') \<Rightarrow> (Inr p, hp')))))"

text \<open>
  The loop of \<open>verifyTokenAndGetClaims\<close> over the token's headers: the keys of the
  first header whose key id finds any, none when no header does.
\<close>

fun locateKeys :: "JSONWebKeySet \<Rightarrow> jose_Header list \<Rightarrow> JSONWebKey list" where
  "locateKeys jwks [] = []"
| "locateKeys jwks (h # hs) =
     (let keys = Key jwks (hdr_KeyID h) in
      if length keys \<noteq> 0 then keys else locateKeys jwks hs)"

definition verifyTokenAndGetClaims ::
  "externals \<Rightarrow> jwtAuthenticator \<Rightarrow> string \<Rightarrow> JSONWebKeySet \<Rightarrow> error + json" where
  "verifyTokenAndGetClaims X a jwtRaw jwks =
     (if Count jwtRaw (CHR ''.'') \<noteq> 2 then Inl (ErrorString ''unsupported jwt format'')
      else case ParseSigned X jwtRaw of
        Inl err \<Rightarrow> Inl err
      | Inr token \<Rightarrow>
     (case locateKeys jwks (Headers token) of
        [key] \<Rightarrow>
          if \<not> IsAlgorithmAllowed (jwt_a a) (Algorithm key)
          then Inl (ErrorString (Algorithm key @ '' algorithm is not allowed''))
          else (case Claims X token jwks of
                  Inl err \<Rightarrow> Inl err
                | Inr mapClaims \<Rightarrow>
                   (case Claims_Validate X mapClaims (jwt_a a) of
                      Some err \<Rightarrow>
                        Inl (UnauthorizedError
                               ''access token does not satisfy assertion conditions'' err)
                    | None \<Rightarrow> Inr (JObject mapClaims)))
      | _ \<Rightarrow> Inl (ErrorString ''no (unique) key found for the given key id'')))"

text \<open>
  \<open>Authenticate\<close> reads its receiver and writes \<open>sc.Subject\<close>: it returns its error and
  the subject context as it leaves it.
\<close>

definition Authenticate ::
  "externals \<Rightarrow> jwtAuthenticator \<Rightarrow> RequestContext \<Rightarrow> SubjectContext \<Rightarrow> error option \<times> SubjectContext" where
  "Authenticate X a as sc =
     (case SendRequest X (jwt_e a) of
        Inl err \<Rightarrow> (Some err, sc)
      | Inr rawBody \<Rightarrow>
     (case Unmarshal_jwks X rawBody of
        Inl err \<Rightarrow> (Some err, sc)
      | Inr jwks \<Rightarrow>
     (case GetAuthData (jwt_adg a) as of
        Inl err \<Rightarrow> (Some (ArgumentError ''no jwt present'' err), sc)
      | Inr jwtRaw \<Rightarrow>
     (case verifyTokenAndGetClaims X a jwtRaw jwks of
        Inl err \<Rightarrow> (Some err, sc)
      | Inr rawClaims \<Rightarrow>
     (case GetSubject (ParseFloat X) (gjson_GetBytes X) (jwt_se a) rawClaims of
        Inl err \<Rightarrow> (Some err, sc\<lparr>Subject := None\<rparr>)
      | Inr sub \<Rightarrow> (None, sc\<lparr>Subject := Some sub\<rparr>))))))"

text \<open>
  \<open>WithConfig\<close>: the receiver is a pointer, the result a pointer or an error, and the
  heap is returned as the call leaves it.
\<close>

definition WithConfig :: "externals \<Rightarrow> heap \<Rightarrow> ptr \<Rightarrow> string \<Rightarrow> (error + ptr) \<times> heap" where
  "WithConfig X hp a config =
     (if length config = 0 then (Inr a, hp)
      else case Unmarshal_override X config of
        Inl err \<Rightarrow> (Inl err, hp)
      | Inr assertions \<Rightarrow>
         (case deref hp a of
            None \<Rightarrow> (Inl (Panic ''invalid memory address or nil pointer dereference''), hp)
          | Some this \<Rightarrow>
             (case alloc hp \<lparr>jwt_e = jwt_e this, jwt_a = assertions, jwt_se = jwt_se this,
                             jwt_adg = jwt_adg this\<rparr> of
                (p, hp') \<Rightarrow> (Inr p, hp'))))"

section \<open>Concrete inputs\<close>

text \<open>Requests: one with no credential at all, one with a token in the query.\<close>

definition emptyRequest :: RequestContext where
  "emptyRequest = \<lparr>headers = [], query_params = [], form_params = []\<rparr>"

definition blankTokenRequest :: RequestContext where
  "blankTokenRequest = \<lparr>headers = [], query_params = [(''access_token'', [])], form_params = []\<rparr>"

definition tokenRequest :: RequestContext where
  "tokenRequest =
     \<lparr>headers = [], query_params = [(''access_token'', ''Bearer  a.b.c '')], form_params = []\<rparr>"

text \<open>
  Stages that succeed and leave the state alone, an error handler that passes the error
  on, and rules made of them.
\<close>

definition passAuthenticator :: "'w Authenticator" where
  "passAuthenticator reqCtx sc w =
     ((None, sc\<lparr>Subject := Some \<lparr>Id' = ''alice'', Attributes = None\<rparr>\<rparr>), w)"

definition passAuthorizer :: "'w Authorizer" where
  "passAuthorizer reqCtx sc w = ((None, sc), w)"

definition passHydrator :: "'w Hydrator" where
  "passHydrator sc w = ((None, sc), w)"

definition passMutator :: "'w Mutator" where
  "passMutator sc w = ((None, sc), w)"

definition passOnErrorHandler :: "'w ErrorHandler" where
  "passOnErrorHandler err w = (Some err, w)"

definition exampleRule :: "unit rule" where
  "exampleRule =
     \<lparr>rule_id = ''R0'', rule_url = ''/api'', rule_methods = [], rule_srcID = ''sourceA'',
      rule_an = passAuthenticator, rule_az = passAuthorizer, rule_h = passHydrator,
      rule_m = passMutator, rule_eh = passOnErrorHandler\<rparr>"

definition getRule :: "unit rule" where
  "getRule = exampleRule\<lparr>rule_methods := [''GET'', ''HEAD'']\<rparr>"

text \<open>
  What the stages of three recording rules do: an authenticator that finds no
  credentials, a hydrator whose endpoint is down, and stages that all succeed.
\<close>

definition aliceContext :: SubjectContext where
  "aliceContext = \<lparr>Subject = Some \<lparr>Id' = ''alice'', Attributes = None\<rparr>\<rparr>"

definition denyRule :: "(call list) rule" where
  "denyRule =
     recordingRule ''R1'' ''/api'' [''GET''] ''sourceA'' (\<lambda>reqCtx sc. (Some (LibError ''no credentials''), sc))
       (\<lambda>reqCtx sc. (None, sc)) (\<lambda>sc. (None, sc)) (\<lambda>sc. (None, sc)) (\<lambda>err. Some err)"

definition failHydrateRule :: "(call list) rule" where
  "failHydrateRule =
     recordingRule ''R2'' ''/api/users'' [] ''sourceA'' (\<lambda>reqCtx sc. (None, aliceContext))
       (\<lambda>reqCtx sc. (None, sc)) (\<lambda>sc. (Some (LibError ''hydration endpoint unreachable''), sc))
       (\<lambda>sc. (None, sc)) (\<lambda>err. None)"

definition passRule :: "(call list) rule" where
  "passRule =
     recordingRule ''R3'' ''/health'' [''GET'', ''HEAD''] ''sourceB'' (\<lambda>reqCtx sc. (None, aliceContext))
       (\<lambda>reqCtx sc. (None, sc)) (\<lambda>sc. (None, sc)) (\<lambda>sc. (None, sc)) (\<lambda>err. Some err)"

text \<open>
  A handler factory that knows no stage called \<open>unknown\<close>, and a rule-set decoder that
  knows three definitions: two rules, three rules of which the second names an unknown
  authorizer, and one rule.
\<close>

definition exampleFactory :: "'w HandlerFactory" where
  "exampleFactory =
     \<lparr>CreateAuthenticator =
        (\<lambda>c. if c = ''unknown'' then Inl (LibError ''no such authenticator'') else Inr passAuthenticator),
      CreateAuthorizer =
        (\<lambda>c. if c = ''unknown'' then Inl (LibError ''no such authorizer'') else Inr passAuthorizer),
      CreateHydrator =
        (\<lambda>c. if c = ''unknown'' then Inl (LibError ''no such hydrator'') else Inr passHydrator),
      CreateMutator =
        (\<lambda>c. if c = ''unknown'' then Inl (LibError ''no such mutator'') else Inr passMutator),
      CreateErrorHandler =
        (\<lambda>c. if c = ''unknown'' then Inl (LibError ''no such error handler'')
             else Inr passOnErrorHandler)\<rparr>"

definition ruleConfig :: "string \<Rightarrow> string \<Rightarrow> RuleConfig" where
  "ruleConfig name authorizer =
     \<lparr>ID = name, URL = ''/api'', Methods = [''GET''], Authenticators = ''jwt'',
      Authorizer = authorizer, Hydrators = ''none'', Mutators = ''header'',
      ErrorHandlers = ''default''\<rparr>"

definition exampleYaml :: "string \<Rightarrow> error + RuleConfig list" where
  "exampleYaml data =
     (if data = ''two'' then Inr [ruleConfig ''R1'' ''allow'', ruleConfig ''R2'' ''allow'']
      else if data = ''three'' then
        Inr [ruleConfig ''R3'' ''allow'', ruleConfig ''R4'' ''unknown'', ruleConfig ''R5'' ''allow'']
      else if data = ''one'' then Inr [ruleConfig ''R6'' ''allow'']
      else Inl (LibError ''yaml: unmarshal errors''))"

definition emptyRepository :: "unit repository" where
  "emptyRepository = \<lparr>hf = exampleFactory, rules = []\<rparr>"

text \<open>
  The collaborators of the JWT authenticator: decoders that know one configuration
  (\<open>conf\<close>, which names no algorithm) and one override (\<open>issuer\<close>), a key set with the
  keys \<open>k1\<close> (ES256) and \<open>k2\<close> (HS256), and tokens \<open>a.b.c\<close> (key \<open>k1\<close>) and \<open>x.y.z\<close>
  (key \<open>k2\<close>). \<open>downExternals\<close> is the same with a key-set endpoint that does not answer.
  The stand-in for \<open>strconv.ParseFloat\<close> reads the literals \<open>42\<close> and \<open>4102444800\<close>; every
  other literal, \<open>1e400\<close> among them, is out of range for it.
\<close>

definition exampleExpectation :: Expectation where
  "exampleExpectation =
     \<lparr>AllowedAlgorithms = [], TrustedIssuer = [], TargetAudiences = [], ScopesRequired = [],
      ValidityLeeway = 0\<rparr>"

definition issuerExpectation :: Expectation where
  "issuerExpectation = exampleExpectation\<lparr>TrustedIssuer := ''https://issuer.example''\<rparr>"

definition exampleConfig :: jwt_config where
  "exampleConfig =
     \<lparr>cfg_Endpoint = \<lparr>ep_URL = ''https://keys.example/jwks'', ep_Method = [], ep_Headers = None\<rparr>,
      cfg_AuthDataSource = Some (QueryParameterExtractStrategy ''access_token'' ''Bearer''),
      cfg_JwtAssertions = exampleExpectation,
      cfg_Session = \<lparr>SubjectFrom = [], AttributesFrom = ''attrs''\<rparr>\<rparr>"

definition exampleKeySet :: JSONWebKeySet where
  "exampleKeySet =
     \<lparr>Keys = [\<lparr>KeyID = ''k1'', Algorithm = ''ES256''\<rparr>, \<lparr>KeyID = ''k2'', Algorithm = ''HS256''\<rparr>]\<rparr>"

definition exampleParseFloat :: "string \<Rightarrow> rat option" where
  "exampleParseFloat n =
     (if n = ''42'' then Some 42
      else if n = ''4102444800'' then Some 4102444800
      else None)"

definition exampleExternals :: externals where
  "exampleExternals =
     \<lparr>UnmarshalStrict_config =
        (\<lambda>c. if c = ''conf'' then Inr exampleConfig else Inl (LibError ''yaml: unmarshal errors'')),
      Unmarshal_override =
        (\<lambda>c. if c = ''issuer'' then Inr issuerExpectation else Inl (LibError ''yaml: unmarshal errors'')),
      Expectation_Validate = (\<lambda>expectation. None),
      Endpoint_Validate =
        (\<lambda>ep. if ep_URL ep = [] then Some (LibError ''endpoint requires url to be set'') else None),
      SendRequest = (\<lambda>ep. Inr ''keys''),
      Unmarshal_jwks =
        (\<lambda>body. if body = ''keys'' then Inr exampleKeySet
                 else Inl (SyntaxError ''invalid character'')),
      ParseSigned =
        (\<lambda>jwtRaw. if jwtRaw = ''a.b.c''
                     then Inr \<lparr>Headers = [\<lparr>hdr_KeyID = ''k1'', hdr_Algorithm = ''ES256''\<rparr>],
                               compact = jwtRaw\<rparr>
                   else if jwtRaw = ''x.y.z''
                     then Inr \<lparr>Headers = [\<lparr>hdr_KeyID = ''k2'', hdr_Algorithm = ''HS256''\<rparr>],
                               compact = jwtRaw\<rparr>
                   else Inl (LibError ''square/go-jose: compact JWS format must have three parts'')),
      Claims = (\<lambda>token jwks. Inr [(''sub'', JString ''alice''), (''exp'', JNumber ''4102444800'')]),
      Claims_Validate = (\<lambda>claims expectation. None),
      gjson_GetBytes = memberGet,
      ParseFloat = exampleParseFloat\<rparr>"

definition downExternals :: externals where
  "downExternals = exampleExternals\<lparr>SendRequest := (\<lambda>ep. Inl (LibError ''connection refused''))\<rparr>"

definition exampleAuthenticator :: jwtAuthenticator where
  "exampleAuthenticator =
     \<lparr>jwt_e = \<lparr>ep_URL = ''https://keys.example/jwks'', ep_Method = ''GET'',
               ep_Headers = Some [(''Accept-Type'', ''application/json'')]\<rparr>,
      jwt_a = exampleExpectation\<lparr>AllowedAlgorithms := defaultAlgorithms\<rparr>,
      jwt_se = \<lparr>SubjectFrom = ''sub'', AttributesFrom = ''attrs''\<rparr>,
      jwt_adg = QueryParameterExtractStrategy ''access_token'' ''Bearer''\<rparr>"

text \<open>Change events: a rule set of a source arrives, a source goes away.\<close>

definition createEvent :: "string \<Rightarrow> string \<Rightarrow> RuleSetChangedEvent" where
  "createEvent src data = \<lparr>Src = src, ChangeType = Create, Definition = data\<rparr>"

definition removeEvent :: "string \<Rightarrow> RuleSetChangedEvent" where
  "removeEvent src = \<lparr>Src = src, ChangeType = Remove, Definition = []\<rparr>"

text \<open>The stage calls of a full run, in order.\<close>

definition stageCalls :: "call list" where
  "stageCalls = [CallAuthenticate, CallAuthorize, CallHydrate, CallMutate]"

section \<open>Trimming and the query-parameter strategy\<close>

lemma TrimPrefix_removes: "TrimPrefix (p @ s) p = s"
  by (simp add: TrimPrefix_def)

lemma TrimPrefix_keeps: "\<not> prefix p s \<Longrightarrow> TrimPrefix s p = s"
  by (simp add: TrimPrefix_def)

lemma leadingWidth_found:
  assumes "leadingWidth rs s \<noteq> 0"
  shows "\<exists>r\<in>set rs. prefix r s \<and> length r = leadingWidth rs s"
proof -
  from assms obtain r where r: "find (\<lambda>r. prefix r s) rs = Some r" and len: "length r = leadingWidth rs s"
    by (auto simp: leadingWidth_def split: option.splits)
  from r have "r \<in> set rs \<and> prefix r s"
    by (auto simp: find_Some_iff)
  with len show ?thesis by blast
qed

lemma leadingWidth_zero:
  assumes "[] \<notin> set rs" and "leadingWidth rs s = 0"
  shows "\<forall>r\<in>set rs. \<not> prefix r s"
proof
  fix r assume r: "r \<in> set rs"
  show "\<not> prefix r s"
  proof
    assume "prefix r s"
    with r have "find (\<lambda>r. prefix r s) rs \<noteq> None" by (auto simp: find_None_iff)
    then obtain r' where f: "find (\<lambda>r. prefix r s) rs = Some r'" by auto
    then have "r' \<in> set rs" by (auto simp: find_Some_iff)
    with assms(1) have "r' \<noteq> []" by auto
    with f assms(2) show False by (simp add: leadingWidth_def)
  qed
qed

lemma trimLeading_cut:
  "\<exists>cut. set cut \<subseteq> set rs \<and> s = concat cut @ trimLeading rs s"
proof (induction rs s rule: trimLeading.induct)
  case (1 rs s)
  show ?case
  proof (cases "leadingWidth rs s = 0")
    case True
    then have "trimLeading rs s = s" by (simp add: trimLeading.simps)
    then have "set [] \<subseteq> set rs \<and> s = concat [] @ trimLeading rs s" by simp
    then show ?thesis by blast
  next
    case False
    from leadingWidth_found [OF False] obtain r
      where r: "r \<in> set rs" "prefix r s" "length r = leadingWidth rs s" by blast
    from "1.IH" [OF False] obtain cut
      where cut: "set cut \<subseteq> set rs"
        "drop (leadingWidth rs s) s = concat cut @ trimLeading rs (drop (leadingWidth rs s) s)"
      by blast
    from False have t: "trimLeading rs s = trimLeading rs (drop (leadingWidth rs s) s)"
      by (subst trimLeading.simps) simp
    from r(2,3) have "s = r @ drop (leadingWidth rs s) s"
      by (auto simp: prefix_def)
    with cut(2) t have "s = concat (r # cut) @ trimLeading rs s" by simp
    moreover from r(1) cut(1) have "set (r # cut) \<subseteq> set rs" by simp
    ultimately show ?thesis by blast
  qed
qed

lemma trimLeading_done: "leadingWidth rs (trimLeading rs s) = 0"
proof (induction rs s rule: trimLeading.induct)
  case (1 rs s)
  show ?case
  proof (cases "leadingWidth rs s = 0")
    case True
    then show ?thesis by (simp add: trimLeading.simps)
  next
    case False
    with "1.IH" show ?thesis by (subst trimLeading.simps) simp
  qed
qed

lemma spaceRunes_nonempty: "[] \<notin> set spaceRunes"
  by (simp add: spaceRunes_def)

lemma TrimSpace_cut:
  "\<exists>l t. set l \<subseteq> set spaceRunes \<and> set t \<subseteq> set spaceRunes \<and> s = concat l @ TrimSpace s @ concat t"
proof -
  from trimLeading_cut [of spaceRunes s] obtain l
    where l: "set l \<subseteq> set spaceRunes" "s = concat l @ TrimLeftSpace s"
    by (auto simp: TrimLeftSpace_def)
  from trimLeading_cut [of "map rev spaceRunes" "rev (TrimLeftSpace s)"] obtain cut
    where cut: "set cut \<subseteq> set (map rev spaceRunes)"
      "rev (TrimLeftSpace s) = concat cut @ trimLeading (map rev spaceRunes) (rev (TrimLeftSpace s))"
    by blast
  from cut(2) have "rev (rev (TrimLeftSpace s)) =
      rev (concat cut @ trimLeading (map rev spaceRunes) (rev (TrimLeftSpace s)))" by simp
  then have "TrimLeftSpace s = TrimSpace s @ concat (map rev (rev cut))"
    by (simp add: TrimSpace_def TrimRightSpace_def rev_concat)
  moreover from cut(1) have "set (map rev (rev cut)) \<subseteq> set spaceRunes"
    by auto
  ultimately show ?thesis using l by metis
qed

lemma TrimSpace_no_leading: "\<forall>r\<in>set spaceRunes. \<not> prefix r (TrimSpace s)"
proof
  fix r assume r: "r \<in> set spaceRunes"
  have "leadingWidth spaceRunes (TrimLeftSpace s) = 0"
    by (simp add: TrimLeftSpace_def trimLeading_done)
  from leadingWidth_zero [OF spaceRunes_nonempty this] r
  have no: "\<not> prefix r (TrimLeftSpace s)" by blast
  from trimLeading_cut [of "map rev spaceRunes" "rev (TrimLeftSpace s)"] obtain cut
    where "rev (TrimLeftSpace s) = concat cut @ trimLeading (map rev spaceRunes) (rev (TrimLeftSpace s))"
    by blast
  then have "rev (rev (TrimLeftSpace s)) =
      rev (concat cut @ trimLeading (map rev spaceRunes) (rev (TrimLeftSpace s)))" by simp
  then have "TrimLeftSpace s = TrimSpace s @ rev (concat cut)"
    by (simp add: TrimSpace_def TrimRightSpace_def)
  then have "prefix (TrimSpace s) (TrimLeftSpace s)" by (metis prefixI)
  with no show "\<not> prefix r (TrimSpace s)" by (meson prefix_order.trans)
qed

lemma TrimSpace_no_trailing: "\<forall>r\<in>set spaceRunes. \<not> suffix r (TrimSpace s)"
proof
  fix r assume r: "r \<in> set spaceRunes"
  have ne: "[] \<notin> set (map rev spaceRunes)" using spaceRunes_nonempty by auto
  have "leadingWidth (map rev spaceRunes) (rev (TrimSpace s)) = 0"
    by (simp add: TrimSpace_def TrimRightSpace_def trimLeading_done)
  from leadingWidth_zero [OF ne this] r
  have "\<not> prefix (rev r) (rev (TrimSpace s))" by auto
  then show "\<not> suffix r (TrimSpace s)" by (simp add: suffix_to_prefix)
qed

lemma TrimSpace_token: "TrimSpace (TrimPrefix ''Bearer  a.b.c '' ''Bearer'') = ''a.b.c''"
  by code_simp

text \<open>
  Claim C10. \<open>QueryParameterExtractStrategy.GetAuthData\<close> returns the auth-data-missing
  error when the request has no such query parameter and when the parameter is there
  with an empty value, the same error in both cases. When the parameter has a non-empty
  value it returns \<open>TrimSpace (TrimPrefix val Prefix)\<close>: the value without the prefix
  (when it starts with it), cut at both ends by white-space runes only, and neither
  starting nor ending with one.
\<close>

theorem Query_GetAuthData_empty_as_absent:
  "(map_of (query_params s) Name = None \<or> map_of (query_params s) Name = Some [] \<longrightarrow>
      GetAuthData (QueryParameterExtractStrategy Name Prefix) s =
        Inl (ErrAuthData (''no '' @ [CHR 0x27] @ Name @ [CHR 0x27] @ '' query parameter present''))) \<and>
   (\<forall>val. map_of (query_params s) Name = Some val \<and> val \<noteq> [] \<longrightarrow>
      GetAuthData (QueryParameterExtractStrategy Name Prefix) s =
        Inr (TrimSpace (TrimPrefix val Prefix)) \<and>
      (prefix Prefix val \<longrightarrow> val = Prefix @ TrimPrefix val Prefix) \<and>
      (\<not> prefix Prefix val \<longrightarrow> TrimPrefix val Prefix = val) \<and>
      (\<exists>l t. set l \<subseteq> set spaceRunes \<and> set t \<subseteq> set spaceRunes \<and>
         TrimPrefix val Prefix = concat l @ TrimSpace (TrimPrefix val Prefix) @ concat t) \<and>
      (\<forall>r\<in>set spaceRunes. \<not> prefix r (TrimSpace (TrimPrefix val Prefix)) \<and>
         \<not> suffix r (TrimSpace (TrimPrefix val Prefix))))"
proof (intro conjI allI impI)
  assume "map_of (query_params s) Name = None \<or> map_of (query_params s) Name = Some []"
  then show "GetAuthData (QueryParameterExtractStrategy Name Prefix) s =
        Inl (ErrAuthData (''no '' @ [CHR 0x27] @ Name @ [CHR 0x27] @ '' query parameter present''))"
    by (auto simp: Query_GetAuthData_def Query_def)
next
  fix val assume "map_of (query_params s) Name = Some val \<and> val \<noteq> []"
  then show "GetAuthData (QueryParameterExtractStrategy Name Prefix) s =
        Inr (TrimSpace (TrimPrefix val Prefix))"
    by (simp add: Query_GetAuthData_def Query_def)
next
  fix val assume "prefix Prefix val"
  then show "val = Prefix @ TrimPrefix val Prefix"
    by (auto simp: TrimPrefix_def prefix_def)
next
  fix val assume "\<not> prefix Prefix val"
  then show "TrimPrefix val Prefix = val" by (rule TrimPrefix_keeps)
next
  fix val
  show "\<exists>l t. set l \<subseteq> set spaceRunes \<and> set t \<subseteq> set spaceRunes \<and>
         TrimPrefix val Prefix = concat l @ TrimSpace (TrimPrefix val Prefix) @ concat t"
    by (rule TrimSpace_cut)
next
  fix val
  show "\<forall>r\<in>set spaceRunes. \<not> prefix r (TrimSpace (TrimPrefix val Prefix)) \<and>
         \<not> suffix r (TrimSpace (TrimPrefix val Prefix))"
    using TrimSpace_no_leading TrimSpace_no_trailing by blast
qed

text \<open>
  The theorem at a request with no query parameter, at one whose \<open>access_token\<close> is
  empty, and at one whose \<open>access_token\<close> is \<open>Bearer  a.b.c\<close> followed by a space.
\<close>

theorem Query_GetAuthData_empty_as_absent_witness:
  "GetAuthData (QueryParameterExtractStrategy ''access_token'' ''Bearer'') emptyRequest =
     Inl (ErrAuthData (''no '' @ [CHR 0x27] @ ''access_token'' @ [CHR 0x27] @ '' query parameter present'')) \<and>
   GetAuthData (QueryParameterExtractStrategy ''access_token'' ''Bearer'') blankTokenRequest =
     Inl (ErrAuthData (''no '' @ [CHR 0x27] @ ''access_token'' @ [CHR 0x27] @ '' query parameter present'')) \<and>
   GetAuthData (QueryParameterExtractStrategy ''access_token'' ''Bearer'') tokenRequest = Inr ''a.b.c''"
proof -
  have 1: "map_of (query_params emptyRequest) ''access_token'' = None"
    by (simp add: emptyRequest_def)
  have 2: "map_of (query_params blankTokenRequest) ''access_token'' = Some []"
    by (simp add: blankTokenRequest_def)
  have 3: "map_of (query_params tokenRequest) ''access_token'' = Some ''Bearer  a.b.c '' \<and>
      ''Bearer  a.b.c '' \<noteq> []"
    by (simp add: tokenRequest_def)
  from Query_GetAuthData_empty_as_absent [of emptyRequest "''access_token''" "''Bearer''"] 1
  have a: "GetAuthData (QueryParameterExtractStrategy ''access_token'' ''Bearer'') emptyRequest =
     Inl (ErrAuthData (''no '' @ [CHR 0x27] @ ''access_token'' @ [CHR 0x27] @ '' query parameter present''))"
    by blast
  from Query_GetAuthData_empty_as_absent [of blankTokenRequest "''access_token''" "''Bearer''"] 2
  have b: "GetAuthData (QueryParameterExtractStrategy ''access_token'' ''Bearer'') blankTokenRequest =
     Inl (ErrAuthData (''no '' @ [CHR 0x27] @ ''access_token'' @ [CHR 0x27] @ '' query parameter present''))"
    by blast
  from Query_GetAuthData_empty_as_absent [of tokenRequest "''access_token''" "''Bearer''"] 3
  have "GetAuthData (QueryParameterExtractStrategy ''access_token'' ''Bearer'') tokenRequest =
     Inr (TrimSpace (TrimPrefix ''Bearer  a.b.c '' ''Bearer''))"
    by blast
  with a b show ?thesis by (simp only: TrimSpace_token) 
qed

section \<open>Rule execution and method matching\<close>

lemma records_recordingRule: "records (recordingRule name url methods src an az h m eh) an az h m eh"
  by (simp add: records_def recordingRule_def)

lemma Execute_recorded:
  assumes q: "records q an az h m eh"
  shows "(\<forall>e sc. an req \<lparr>Subject = None\<rparr> = (Some e, sc) \<longrightarrow>
      Execute q req w = ((None, eh e), w @ [CallAuthenticate, CallHandleError e])) \<and>
   (\<forall>e sc1 sc2. an req \<lparr>Subject = None\<rparr> = (None, sc1) \<and> az req sc1 = (Some e, sc2) \<longrightarrow>
      Execute q req w = ((None, eh e), w @ [CallAuthenticate, CallAuthorize, CallHandleError e])) \<and>
   (\<forall>e sc1 sc2 sc3. an req \<lparr>Subject = None\<rparr> = (None, sc1) \<and> az req sc1 = (None, sc2) \<and>
      h sc2 = (Some e, sc3) \<longrightarrow>
      Execute q req w =
        ((None, eh e), w @ [CallAuthenticate, CallAuthorize, CallHydrate, CallHandleError e])) \<and>
   (\<forall>e sc1 sc2 sc3 sc4. an req \<lparr>Subject = None\<rparr> = (None, sc1) \<and> az req sc1 = (None, sc2) \<and>
      h sc2 = (None, sc3) \<and> m sc3 = (Some e, sc4) \<longrightarrow>
      Execute q req w =
        ((None, eh e),
         w @ [CallAuthenticate, CallAuthorize, CallHydrate, CallMutate, CallHandleError e])) \<and>
   (\<forall>sc1 sc2 sc3 sc4. an req \<lparr>Subject = None\<rparr> = (None, sc1) \<and> az req sc1 = (None, sc2) \<and>
      h sc2 = (None, sc3) \<and> m sc3 = (None, sc4) \<longrightarrow>
      Execute q req w = ((Some sc4, None), w @ stageCalls)) \<and>
   (\<exists>res err calls. Execute q req w = ((res, err), w @ calls) \<and>
      ((\<exists>sc. res = Some sc \<and> err = None \<and> calls = stageCalls) \<or>
       (\<exists>n e. 0 < n \<and> n \<le> 4 \<and> res = None \<and> err = eh e \<and>
              calls = take n stageCalls @ [CallHandleError e])))"
proof (intro conjI allI impI)
  from q have st: "rule_an q = (\<lambda>reqCtx sc w. (an reqCtx sc, w @ [CallAuthenticate]))"
    "rule_az q = (\<lambda>reqCtx sc w. (az reqCtx sc, w @ [CallAuthorize]))"
    "rule_h q = (\<lambda>sc w. (h sc, w @ [CallHydrate]))"
    "rule_m q = (\<lambda>sc w. (m sc, w @ [CallMutate]))"
    "rule_eh q = (\<lambda>err w. (eh err, w @ [CallHandleError err]))"
    by (simp_all add: records_def)
  note defs = Execute_def st stageCalls_def
  {
    fix e sc assume "an req \<lparr>Subject = None\<rparr> = (Some e, sc)"
    then show "Execute q req w = ((None, eh e), w @ [CallAuthenticate, CallHandleError e])"
      by (simp add: defs)
  next
    fix e sc1 sc2
    assume "an req \<lparr>Subject = None\<rparr> = (None, sc1) \<and> az req sc1 = (Some e, sc2)"
    then show "Execute q req w =
        ((None, eh e), w @ [CallAuthenticate, CallAuthorize, CallHandleError e])"
      by (simp add: defs)
  next
    fix e sc1 sc2 sc3
    assume "an req \<lparr>Subject = None\<rparr> = (None, sc1) \<and> az req sc1 = (None, sc2) \<and>
      h sc2 = (Some e, sc3)"
    then show "Execute q req w =
        ((None, eh e), w @ [CallAuthenticate, CallAuthorize, CallHydrate, CallHandleError e])"
      by (simp add: defs)
  next
    fix e sc1 sc2 sc3 sc4
    assume "an req \<lparr>Subject = None\<rparr> = (None, sc1) \<and> az req sc1 = (None, sc2) \<and>
      h sc2 = (None, sc3) \<and> m sc3 = (Some e, sc4)"
    then show "Execute q req w =
        ((None, eh e),
         w @ [CallAuthenticate, CallAuthorize, CallHydrate, CallMutate, CallHandleError e])"
      by (simp add: defs)
  next
    fix sc1 sc2 sc3 sc4
    assume "an req \<lparr>Subject = None\<rparr> = (None, sc1) \<and> az req sc1 = (None, sc2) \<and>
      h sc2 = (None, sc3) \<and> m sc3 = (None, sc4)"
    then show "Execute q req w = ((Some sc4, None), w @ stageCalls)"
      by (simp add: defs)
  }
  show "\<exists>res err calls. Execute q req w = ((res, err), w @ calls) \<and>
      ((\<exists>sc. res = Some sc \<and> err = None \<and> calls = stageCalls) \<or>
       (\<exists>n e. 0 < n \<and> n \<le> 4 \<and> res = None \<and> err = eh e \<and>
              calls = take n stageCalls @ [CallHandleError e]))"
  proof -
    obtain e1 sc1 where a: "an req \<lparr>Subject = None\<rparr> = (e1, sc1)" by force
    obtain e2 sc2 where b: "az req sc1 = (e2, sc2)" by force
    obtain e3 sc3 where c: "h sc2 = (e3, sc3)" by force
    obtain e4 sc4 where d: "m sc3 = (e4, sc4)" by force
    have failI: "\<And>n e.
        Execute q req w = ((None, eh e), w @ take n stageCalls @ [CallHandleError e])
        \<Longrightarrow> 0 < n \<Longrightarrow> n \<le> 4 \<Longrightarrow> ?thesis"
      by blast
    show ?thesis
    proof (cases e1)
      case (Some e)
      with a have "Execute q req w = ((None, eh e), w @ take 1 stageCalls @ [CallHandleError e])"
        by (simp add: defs)
      then show ?thesis by (rule failI) simp_all
    next
      case n1: None
      show ?thesis
      proof (cases e2)
        case (Some e)
        with a b n1
        have "Execute q req w = ((None, eh e), w @ take 2 stageCalls @ [CallHandleError e])"
          by (simp add: defs)
        then show ?thesis by (rule failI) simp_all
      next
        case n2: None
        show ?thesis
        proof (cases e3)
          case (Some e)
          with a b c n1 n2
          have "Execute q req w = ((None, eh e), w @ take 3 stageCalls @ [CallHandleError e])"
            by (simp add: defs)
          then show ?thesis by (rule failI) simp_all
        next
          case n3: None
          show ?thesis
          proof (cases e4)
            case (Some e)
            with a b c d n1 n2 n3
            have "Execute q req w = ((None, eh e), w @ take 4 stageCalls @ [CallHandleError e])"
              by (simp add: defs)
            then show ?thesis by (rule failI) simp_all
          next
            case None
            with a b c d n1 n2 n3 have "Execute q req w = ((Some sc4, None), w @ stageCalls)"
              by (simp add: defs)
            then show ?thesis by blast
          qed
        qed
      qed
    qed
  qed
qed

text \<open>
  Claim C2, for every rule \<open>r\<close>, every request and every state \<open>w\<close>. \<open>Execute\<close> calls
  the stages in the order Authenticate, Authorize, Hydrate, Mutate, each on the state the
  one before left. When a stage returns an error, \<open>Execute\<close> calls the error handler with
  that error on the state that stage left, and returns \<open>nil\<close>, the handler's result and
  the state the handler left: no later stage has touched it, and the handler ran once.
  When the four stages succeed, \<open>Execute\<close> returns the subject context as the mutator
  left it, a \<open>nil\<close> error and the state the mutator left: the error handler did not run.
  The five cases are all there are. The second half reads the same off the log, for
  every rule \<open>q\<close> that records, whatever its id, url, methods and source: the calls added
  to the log are the four stages, or the first \<open>n\<close> of them followed by the one call of
  the error handler.
\<close>

theorem Execute_short_circuit:
  fixes r :: "'w rule" and q :: "(call list) rule"
  shows
  "(\<forall>e sc1 w1. rule_an r req \<lparr>Subject = None\<rparr> w = ((Some e, sc1), w1) \<longrightarrow>
      Execute r req w = ((None, fst (rule_eh r e w1)), snd (rule_eh r e w1))) \<and>
   (\<forall>e sc1 w1 sc2 w2. rule_an r req \<lparr>Subject = None\<rparr> w = ((None, sc1), w1) \<and>
      rule_az r req sc1 w1 = ((Some e, sc2), w2) \<longrightarrow>
      Execute r req w = ((None, fst (rule_eh r e w2)), snd (rule_eh r e w2))) \<and>
   (\<forall>e sc1 w1 sc2 w2 sc3 w3. rule_an r req \<lparr>Subject = None\<rparr> w = ((None, sc1), w1) \<and>
      rule_az r req sc1 w1 = ((None, sc2), w2) \<and> rule_h r sc2 w2 = ((Some e, sc3), w3) \<longrightarrow>
      Execute r req w = ((None, fst (rule_eh r e w3)), snd (rule_eh r e w3))) \<and>
   (\<forall>e sc1 w1 sc2 w2 sc3 w3 sc4 w4. rule_an r req \<lparr>Subject = None\<rparr> w = ((None, sc1), w1) \<and>
      rule_az r req sc1 w1 = ((None, sc2), w2) \<and> rule_h r sc2 w2 = ((None, sc3), w3) \<and>
      rule_m r sc3 w3 = ((Some e, sc4), w4) \<longrightarrow>
      Execute r req w = ((None, fst (rule_eh r e w4)), snd (rule_eh r e w4))) \<and>
   (\<forall>sc1 w1 sc2 w2 sc3 w3 sc4 w4. rule_an r req \<lparr>Subject = None\<rparr> w = ((None, sc1), w1) \<and>
      rule_az r req sc1 w1 = ((None, sc2), w2) \<and> rule_h r sc2 w2 = ((None, sc3), w3) \<and>
      rule_m r sc3 w3 = ((None, sc4), w4) \<longrightarrow>
      Execute r req w = ((Some sc4, None), w4)) \<and>
   (records q an az h m eh \<longrightarrow>
     (\<forall>e sc. an req \<lparr>Subject = None\<rparr> = (Some e, sc) \<longrightarrow>
        Execute q req l = ((None, eh e), l @ [CallAuthenticate, CallHandleError e])) \<and>
     (\<forall>e sc1 sc2. an req \<lparr>Subject = None\<rparr> = (None, sc1) \<and> az req sc1 = (Some e, sc2) \<longrightarrow>
        Execute q req l =
          ((None, eh e), l @ [CallAuthenticate, CallAuthorize, CallHandleError e])) \<and>
     (\<forall>e sc1 sc2 sc3. an req \<lparr>Subject = None\<rparr> = (None, sc1) \<and> az req sc1 = (None, sc2) \<and>
        h sc2 = (Some e, sc3) \<longrightarrow>
        Execute q req l =
          ((None, eh e), l @ [CallAuthenticate, CallAuthorize, CallHydrate, CallHandleError e])) \<and>
     (\<forall>e sc1 sc2 sc3 sc4. an req \<lparr>Subject = None\<rparr> = (None, sc1) \<and>
        az req sc1 = (None, sc2) \<and> h sc2 = (None, sc3) \<and> m sc3 = (Some e, sc4) \<longrightarrow>
        Execute q req l =
          ((None, eh e),
           l @ [CallAuthenticate, CallAuthorize, CallHydrate, CallMutate, CallHandleError e])) \<and>
     (\<forall>sc1 sc2 sc3 sc4. an req \<lparr>Subject = None\<rparr> = (None, sc1) \<and> az req sc1 = (None, sc2) \<and>
        h sc2 = (None, sc3) \<and> m sc3 = (None, sc4) \<longrightarrow>
        Execute q req l = ((Some sc4, None), l @ stageCalls)) \<and>
     (\<exists>res err calls. Execute q req l = ((res, err), l @ calls) \<and>
        ((\<exists>sc. res = Some sc \<and> err = None \<and> calls = stageCalls) \<or>
         (\<exists>n e. 0 < n \<and> n \<le> 4 \<and> res = None \<and> err = eh e \<and>
                calls = take n stageCalls @ [CallHandleError e]))))"
proof (intro conjI)
  show "records q an az h m eh \<longrightarrow>
     (\<forall>e sc. an req \<lparr>Subject = None\<rparr> = (Some e, sc) \<longrightarrow>
        Execute q req l = ((None, eh e), l @ [CallAuthenticate, CallHandleError e])) \<and>
     (\<forall>e sc1 sc2. an req \<lparr>Subject = None\<rparr> = (None, sc1) \<and> az req sc1 = (Some e, sc2) \<longrightarrow>
        Execute q req l =
          ((None, eh e), l @ [CallAuthenticate, CallAuthorize, CallHandleError e])) \<and>
     (\<forall>e sc1 sc2 sc3. an req \<lparr>Subject = None\<rparr> = (None, sc1) \<and> az req sc1 = (None, sc2) \<and>
        h sc2 = (Some e, sc3) \<longrightarrow>
        Execute q req l =
          ((None, eh e), l @ [CallAuthenticate, CallAuthorize, CallHydrate, CallHandleError e])) \<and>
     (\<forall>e sc1 sc2 sc3 sc4. an req \<lparr>Subject = None\<rparr> = (None, sc1) \<and>
        az req sc1 = (None, sc2) \<and> h sc2 = (None, sc3) \<and> m sc3 = (Some e, sc4) \<longrightarrow>
        Execute q req l =
          ((None, eh e),
           l @ [CallAuthenticate, CallAuthorize, CallHydrate, CallMutate, CallHandleError e])) \<and>
     (\<forall>sc1 sc2 sc3 sc4. an req \<lparr>Subject = None\<rparr> = (None, sc1) \<and> az req sc1 = (None, sc2) \<and>
        h sc2 = (None, sc3) \<and> m sc3 = (None, sc4) \<longrightarrow>
        Execute q req l = ((Some sc4, None), l @ stageCalls)) \<and>
     (\<exists>res err calls. Execute q req l = ((res, err), l @ calls) \<and>
        ((\<exists>sc. res = Some sc \<and> err = None \<and> calls = stageCalls) \<or>
         (\<exists>n e. 0 < n \<and> n \<le> 4 \<and> res = None \<and> err = eh e \<and>
                calls = take n stageCalls @ [CallHandleError e])))"
    by (rule impI) (rule Execute_recorded)
qed (simp_all add: Execute_def split: prod.splits)

text \<open>
  The theorem at three recording rules, one whose authenticator fails, one whose
  hydrator fails (and whose error handler suppresses the error) and one whose stages all
  succeed, and at \<open>exampleRule\<close>, whose stages leave the state alone.
\<close>

theorem Execute_short_circuit_witness:
  "Execute denyRule emptyRequest [] =
     ((None, Some (LibError ''no credentials'')),
      [CallAuthenticate, CallHandleError (LibError ''no credentials'')]) \<and>
   Execute failHydrateRule emptyRequest [] =
     ((None, None),
      [CallAuthenticate, CallAuthorize, CallHydrate,
       CallHandleError (LibError ''hydration endpoint unreachable'')]) \<and>
   Execute passRule emptyRequest [] =
     ((Some aliceContext, None), [CallAuthenticate, CallAuthorize, CallHydrate, CallMutate]) \<and>
   Execute exampleRule emptyRequest () = ((Some aliceContext, None), ())"
proof -
  note deny = Execute_short_circuit
    [where q = denyRule and req = emptyRequest and l = "[]"
       and an = "\<lambda>reqCtx sc. (Some (LibError ''no credentials''), sc)"
       and az = "\<lambda>reqCtx sc. (None, sc)" and h = "\<lambda>sc. (None, sc)" and m = "\<lambda>sc. (None, sc)"
       and eh = "\<lambda>err. Some err",
     THEN conjunct2, THEN conjunct2, THEN conjunct2, THEN conjunct2, THEN conjunct2, THEN mp,
     THEN conjunct1, rule_format, of "LibError ''no credentials''" "\<lparr>Subject = None\<rparr>"]
  note hydrate = Execute_short_circuit
    [where q = failHydrateRule and req = emptyRequest and l = "[]"
       and an = "\<lambda>reqCtx sc. (None, aliceContext)"
       and az = "\<lambda>reqCtx sc. (None, sc)"
       and h = "\<lambda>sc. (Some (LibError ''hydration endpoint unreachable''), sc)"
       and m = "\<lambda>sc. (None, sc)" and eh = "\<lambda>err. None",
     THEN conjunct2, THEN conjunct2, THEN conjunct2, THEN conjunct2, THEN conjunct2, THEN mp,
     THEN conjunct2, THEN conjunct2, THEN conjunct1, rule_format,
     of aliceContext aliceContext "LibError ''hydration endpoint unreachable''" aliceContext]
  note pass = Execute_short_circuit
    [where q = passRule and req = emptyRequest and l = "[]"
       and an = "\<lambda>reqCtx sc. (None, aliceContext)"
       and az = "\<lambda>reqCtx sc. (None, sc)" and h = "\<lambda>sc. (None, sc)" and m = "\<lambda>sc. (None, sc)"
       and eh = "\<lambda>err. Some err",
     THEN conjunct2, THEN conjunct2, THEN conjunct2, THEN conjunct2, THEN conjunct2, THEN mp,
     THEN conjunct2, THEN conjunct2, THEN conjunct2, THEN conjunct2, THEN conjunct1, rule_format,
     of aliceContext aliceContext aliceContext aliceContext]
  note plain = Execute_short_circuit
    [where r = exampleRule and req = emptyRequest and w = "()",
     THEN conjunct2, THEN conjunct2, THEN conjunct2, THEN conjunct2, THEN conjunct1, rule_format,
     of aliceContext "()" aliceContext "()" aliceContext "()" aliceContext "()"]
  have a: "Execute denyRule emptyRequest [] =
     ((None, Some (LibError ''no credentials'')),
      [CallAuthenticate, CallHandleError (LibError ''no credentials'')])"
    using deny by (simp add: denyRule_def records_recordingRule)
  have b: "Execute failHydrateRule emptyRequest [] =
     ((None, None),
      [CallAuthenticate, CallAuthorize, CallHydrate,
       CallHandleError (LibError ''hydration endpoint unreachable'')])"
    using hydrate by (simp add: failHydrateRule_def records_recordingRule)
  have c: "Execute passRule emptyRequest [] = ((Some aliceContext, None), stageCalls)"
    using pass by (simp add: passRule_def records_recordingRule)
  have d: "Execute exampleRule emptyRequest () = ((Some aliceContext, None), ())"
    using plain by (simp add: exampleRule_def passAuthenticator_def passAuthorizer_def
        passHydrator_def passMutator_def aliceContext_def)
  from a b c d show ?thesis by (simp add: stageCalls_def)
qed

lemma Contains_iff: "Contains xs v \<longleftrightarrow> v \<in> set xs"
  by (induction xs) auto

text \<open>
  Claim C6, as the code has it. \<open>MatchesMethod\<close> is membership in the rule's method list
  and nothing else: a rule with an empty method list matches no method.
\<close>

theorem MatchesMethod_membership:
  "(MatchesMethod r m \<longleftrightarrow> m \<in> set (rule_methods r)) \<and>
   (rule_methods r = [] \<longrightarrow> \<not> MatchesMethod r m)"
  by (simp add: MatchesMethod_def Contains_iff)

text \<open>
  The theorem at \<open>exampleRule\<close>, whose method list is empty, and at \<open>getRule\<close>, whose
  methods are \<open>GET\<close> and \<open>HEAD\<close>.
\<close>

theorem MatchesMethod_membership_witness:
  "rule_methods exampleRule = [] \<and>
   \<not> MatchesMethod exampleRule ''GET'' \<and>
   MatchesMethod getRule ''HEAD'' \<and>
   \<not> MatchesMethod getRule ''POST''"
  using MatchesMethod_membership [of exampleRule "''GET''"]
    MatchesMethod_membership [of getRule "''HEAD''"]
    MatchesMethod_membership [of getRule "''POST''"]
  by (simp add: exampleRule_def getRule_def)

text \<open>
  Claim C6 as the specification states it fails: the method list of \<open>exampleRule\<close> is
  empty and the rule does not match \<open>GET\<close>.
\<close>

theorem MatchesMethod_empty_counterexample:
  "rule_methods exampleRule = [] \<and>
   \<not> MatchesMethod exampleRule ''GET''"
  by (simp add: MatchesMethod_def exampleRule_def)

section \<open>Loading and removing rule sets\<close>

lemma loadLoop_error:
  "\<exists>rc\<in>set rcs. \<exists>err. newRule r srcID rc = Inl err \<Longrightarrow> \<exists>err. loadLoop r srcID rcs built = Inl err"
proof (induction rcs arbitrary: built)
  case Nil
  then show ?case by simp
next
  case (Cons rc rcs)
  show ?case
  proof (cases "newRule r srcID rc")
    case (Inl err)
    then show ?thesis by simp
  next
    case (Inr rule)
    with Cons.prems have "\<exists>rc\<in>set rcs. \<exists>err. newRule r srcID rc = Inl err" by auto
    from Cons.IH [OF this] Inr show ?thesis by simp
  qed
qed

lemma loadLoop_success:
  "\<forall>rc\<in>set rcs. \<exists>rule. newRule r srcID rc = Inr rule \<Longrightarrow>
   \<exists>new. loadLoop r srcID rcs built = Inr (built @ new) \<and> length new = length rcs \<and>
     (\<forall>i<length rcs. newRule r srcID (rcs ! i) = Inr (new ! i))"
proof (induction rcs arbitrary: built)
  case Nil
  then show ?case by simp
next
  case (Cons rc rcs)
  then obtain rule where rule: "newRule r srcID rc = Inr rule" by auto
  from Cons.prems have "\<forall>rc\<in>set rcs. \<exists>rule. newRule r srcID rc = Inr rule" by simp
  from Cons.IH [OF this, of "built @ [rule]"]
  obtain new where new: "loadLoop r srcID rcs (built @ [rule]) = Inr ((built @ [rule]) @ new)"
    "length new = length rcs" "\<forall>i<length rcs. newRule r srcID (rcs ! i) = Inr (new ! i)"
    by blast
  have "loadLoop r srcID (rc # rcs) built = Inr (built @ (rule # new))"
    using rule new(1) by simp
  moreover have "length (rule # new) = length (rc # rcs)" using new(2) by simp
  moreover have "\<forall>i<length (rc # rcs). newRule r srcID ((rc # rcs) ! i) = Inr ((rule # new) ! i)"
    using rule new(3) by (auto simp: nth_Cons split: nat.splits)
  ultimately show ?case by blast
qed

lemma foldl_addRule: "foldl addRule r new = r\<lparr>rules := rules r @ new\<rparr>"
  by (induction new arbitrary: r) (simp_all add: addRule_def)

lemma loadRules_error:
  assumes "(\<exists>err. yaml data = Inl err) \<or>
     (\<exists>rcs. yaml data = Inr rcs \<and> (\<exists>rc\<in>set rcs. \<exists>err. newRule r srcID rc = Inl err))"
  shows "\<exists>err. loadRules yaml r srcID data = ([], Some err)"
  using assms
proof
  assume "\<exists>err. yaml data = Inl err"
  then show ?thesis by (auto simp: loadRules_def parseRuleSetFromYaml_def)
next
  assume "\<exists>rcs. yaml data = Inr rcs \<and> (\<exists>rc\<in>set rcs. \<exists>err. newRule r srcID rc = Inl err)"
  then obtain rcs where rcs: "yaml data = Inr rcs"
    and bad: "\<exists>rc\<in>set rcs. \<exists>err. newRule r srcID rc = Inl err" by blast
  from loadLoop_error [OF bad, of "[]"] obtain err where "loadLoop r srcID rcs [] = Inl err" ..
  with rcs show ?thesis by (simp add: loadRules_def parseRuleSetFromYaml_def)
qed

lemma successful_batch_appends_rules:
  assumes "yaml data = Inr rcs" and "\<forall>rc\<in>set rcs. \<exists>rule. newRule r srcID rc = Inr rule"
  shows "\<exists>new. rules (onRuleSetCreated yaml r srcID data) = rules r @ new \<and>
           length new = length rcs \<and>
           (\<forall>i<length rcs. newRule r srcID (rcs ! i) = Inr (new ! i))"
proof -
  from loadLoop_success [OF assms(2), of "[]"] obtain new
    where new: "loadLoop r srcID rcs [] = Inr new" "length new = length rcs"
      "\<forall>i<length rcs. newRule r srcID (rcs ! i) = Inr (new ! i)"
    by auto
  from assms(1) new(1) have "onRuleSetCreated yaml r srcID data = r\<lparr>rules := rules r @ new\<rparr>"
    by (simp add: onRuleSetCreated_def loadRules_def parseRuleSetFromYaml_def foldl_addRule)
  with new(2,3) show ?thesis by auto
qed

lemma newRule_example:
  "newRule r srcID (ruleConfig name authorizer) =
     (if hf r = exampleFactory then
        (if authorizer = ''unknown'' then Inl (LibError ''no such authorizer'')
         else Inr \<lparr>rule_id = name, rule_url = ''/api'', rule_methods = [''GET''], rule_srcID = srcID,
               rule_an = passAuthenticator, rule_az = passAuthorizer, rule_h = passHydrator,
               rule_m = passMutator, rule_eh = passOnErrorHandler\<rparr>)
      else newRule r srcID (ruleConfig name authorizer))"
  by (simp add: newRule_def ruleConfig_def exampleFactory_def)

lemma two_loaded:
  "watchRuleSetChanges exampleYaml emptyRepository [createEvent ''sourceA'' ''two''] =
    \<lparr>hf = exampleFactory, rules =
      [\<lparr>rule_id = ''R1'', rule_url = ''/api'', rule_methods = [''GET''], rule_srcID = ''sourceA'',
               rule_an = passAuthenticator, rule_az = passAuthorizer, rule_h = passHydrator,
               rule_m = passMutator, rule_eh = passOnErrorHandler\<rparr>,
       \<lparr>rule_id = ''R2'', rule_url = ''/api'', rule_methods = [''GET''], rule_srcID = ''sourceA'',
               rule_an = passAuthenticator, rule_az = passAuthorizer, rule_h = passHydrator,
               rule_m = passMutator, rule_eh = passOnErrorHandler\<rparr>]\<rparr>"
  by (simp add: watchRuleSetChanges_def onEvent_def createEvent_def onRuleSetCreated_def
      loadRules_def parseRuleSetFromYaml_def exampleYaml_def newRule_example emptyRepository_def
      addRule_def)

lemma onRuleSetDeleted_noop: "onEvent yaml r (removeEvent s) = r"
  by (simp add: onEvent_def removeEvent_def onRuleSetDeleted_def removeRules_def)

lemma Remove_changes_nothing:
  "watchRuleSetChanges yaml r (evts @ [removeEvent s]) = watchRuleSetChanges yaml r evts"
  by (simp add: watchRuleSetChanges_def onRuleSetDeleted_noop)

text \<open>
  Claim C3. A Create event whose definition does not parse, or one of whose rule
  configurations fails construction, leaves the repository as it was: \<open>loadRules\<close> returns
  \<open>nil\<close> with its error, and the loop of \<open>onRuleSetCreated\<close> over \<open>nil\<close> adds nothing, the
  rules built before the failure included.
\<close>

theorem failed_batch_adds_no_rule:
  assumes "ChangeType evt = Create"
    and "(\<exists>err. yaml (Definition evt) = Inl err) \<or>
     (\<exists>rcs. yaml (Definition evt) = Inr rcs \<and>
        (\<exists>rc\<in>set rcs. \<exists>err. newRule r (Src evt) rc = Inl err))"
  shows "onEvent yaml r evt = r \<and> rules (watchRuleSetChanges yaml r [evt]) = rules r"
proof -
  from loadRules_error [of yaml "Definition evt" r "Src evt", OF assms(2)] obtain err
    where "loadRules yaml r (Src evt) (Definition evt) = ([], Some err)" ..
  then have "onRuleSetCreated yaml r (Src evt) (Definition evt) = r"
    by (simp add: onRuleSetCreated_def)
  with assms(1) show ?thesis by (simp add: onEvent_def watchRuleSetChanges_def)
qed

text \<open>
  The theorem on a repository that holds the rules \<open>R1\<close> and \<open>R2\<close>: a batch of three
  whose second rule names an unknown authorizer, and a batch that does not parse.
\<close>

theorem failed_batch_adds_no_rule_witness:
  "map rule_id (rules (watchRuleSetChanges exampleYaml emptyRepository
      [createEvent ''sourceA'' ''two''])) = [''R1'', ''R2''] \<and>
   map rule_id (rules (watchRuleSetChanges exampleYaml emptyRepository
      [createEvent ''sourceA'' ''two'', createEvent ''sourceB'' ''three''])) = [''R1'', ''R2''] \<and>
   map rule_id (rules (watchRuleSetChanges exampleYaml emptyRepository
      [createEvent ''sourceA'' ''two'', createEvent ''sourceB'' ''garbage''])) = [''R1'', ''R2'']"
proof -
  let ?r = "watchRuleSetChanges exampleYaml emptyRepository [createEvent ''sourceA'' ''two'']"
  have hf: "hf ?r = exampleFactory" by (simp add: two_loaded)
  have bad: "exampleYaml (Definition (createEvent ''sourceB'' ''three'')) =
        Inr [ruleConfig ''R3'' ''allow'', ruleConfig ''R4'' ''unknown'', ruleConfig ''R5'' ''allow''] \<and>
      newRule ?r (Src (createEvent ''sourceB'' ''three'')) (ruleConfig ''R4'' ''unknown'')
        = Inl (LibError ''no such authorizer'')"
    using hf by (simp add: createEvent_def exampleYaml_def newRule_example)
  have "onEvent exampleYaml ?r (createEvent ''sourceB'' ''three'') = ?r"
    using failed_batch_adds_no_rule [of "createEvent ''sourceB'' ''three''" exampleYaml ?r] bad
    by (auto simp: createEvent_def)
  moreover have "onEvent exampleYaml ?r (createEvent ''sourceB'' ''garbage'') = ?r"
    using failed_batch_adds_no_rule [of "createEvent ''sourceB'' ''garbage''" exampleYaml ?r]
    by (simp add: createEvent_def exampleYaml_def)
  ultimately show ?thesis
    by (simp add: watchRuleSetChanges_def) (simp add: two_loaded [unfolded watchRuleSetChanges_def, simplified])
qed

text \<open>
  Claim C1 fails on the code: \<open>removeRules\<close> is not implemented. After the rule set of
  \<open>sourceA\<close> is created and then removed, the repository still holds both of its rules,
  and \<open>FindRule\<close> still returns the first of them.
\<close>

theorem Remove_keeps_rules_of_source:
  "map rule_srcID (rules (watchRuleSetChanges exampleYaml emptyRepository
      [createEvent ''sourceA'' ''two'', removeEvent ''sourceA''])) = [''sourceA'', ''sourceA''] \<and>
   (\<exists>rule. FindRule (watchRuleSetChanges exampleYaml emptyRepository
      [createEvent ''sourceA'' ''two'', removeEvent ''sourceA'']) ''/api'' = Inr rule \<and>
      rule_id rule = ''R1'' \<and> rule_srcID rule = ''sourceA'')"
proof -
  have "watchRuleSetChanges exampleYaml emptyRepository
      [createEvent ''sourceA'' ''two'', removeEvent ''sourceA''] =
      watchRuleSetChanges exampleYaml emptyRepository [createEvent ''sourceA'' ''two'']"
    by (simp add: watchRuleSetChanges_def onRuleSetDeleted_noop)
  then show ?thesis
    by (simp add: two_loaded FindRule_def MatchesURL_def)
qed

section \<open>Subject extraction\<close>

lemma decodes_iff:
  "((\<exists>x. valueInterface pf v = Inr x) \<longleftrightarrow> (\<forall>n\<in>set (numbers v). pf n \<noteq> None))"
  "((\<exists>xs. arrayInterface pf vs = Inr xs) \<longleftrightarrow> (\<forall>n\<in>set (numbersList vs). pf n \<noteq> None))"
  "((\<exists>m'. objectInterface pf kvs m = Inr m') \<longleftrightarrow> (\<forall>n\<in>set (numbersMembers kvs). pf n \<noteq> None))"
proof (induction pf v and pf vs and pf kvs m rule: valueInterface_arrayInterface_objectInterface.induct)
  case (10 parseFloat k v kvs m)
  show ?case
  proof (cases "valueInterface parseFloat v")
    case (Inl err)
    with "10.IH"(1) show ?thesis by auto
  next
    case (Inr x)
    with "10.IH"(1) "10.IH"(2) [OF Inr] show ?thesis by auto
  qed
next
  case (8 parseFloat v vs)
  show ?case
  proof (cases "valueInterface parseFloat v")
    case (Inl err)
    with "8.IH"(1) show ?thesis by auto
  next
    case (Inr x)
    with "8.IH"(1) "8.IH"(2) [OF Inr] show ?thesis by (auto split: sum.splits)
  qed
qed (auto split: sum.splits option.splits)

lemma Unmarshal_string_other:
  assumes "v \<noteq> JNull" and "\<forall>x. v \<noteq> JString x"
  shows "\<exists>err. Unmarshal_string (Some v) var = Inl err"
  using assms by (cases v) (auto simp: Unmarshal_string_def checkValid_def)

lemma Unmarshal_string_null: "Unmarshal_string (Some JNull) var = Inr var"
  by (simp add: Unmarshal_string_def checkValid_def)

lemma Unmarshal_string_string: "Unmarshal_string (Some (JString x)) var = Inr x"
  by (simp add: Unmarshal_string_def checkValid_def)

lemma Unmarshal_map_null: "Unmarshal_map pf (Some JNull) var = Inr None"
  by (simp add: Unmarshal_map_def checkValid_def)

lemma Unmarshal_map_object:
  "(\<exists>m. Unmarshal_map pf (Some (JObject kvs)) None = Inr (Some m)) \<longleftrightarrow>
     depth (JObject kvs) \<le> maxNestingDepth \<and> (\<forall>n\<in>set (numbersMembers kvs). pf n \<noteq> None)"
proof (cases "depth (JObject kvs) \<le> maxNestingDepth")
  case True
  then have "Unmarshal_map pf (Some (JObject kvs)) None =
      (case objectInterface pf kvs [] of Inl err \<Rightarrow> Inl err | Inr m \<Rightarrow> Inr (Some m))"
    by (simp add: Unmarshal_map_def checkValid_def)
  with True decodes_iff(3) [of pf kvs "[]"] show ?thesis
    by (auto split: sum.splits)
next
  case False
  then show ?thesis by (simp add: Unmarshal_map_def checkValid_def)
qed

lemma example_attributes:
  "Unmarshal_map exampleParseFloat
     (Some (JObject [(''role'', JString ''admin''), (''age'', JNumber ''42'')])) None =
     Inr (Some [(''role'', VString ''admin''), (''age'', VFloat 42)])"
  "Unmarshal_map exampleParseFloat (Some (JObject [(''n'', JNumber ''1e400'')])) None =
     Inl (UnmarshalTypeError ''number 1e400'' ''float64'')"
  by (simp_all add: Unmarshal_map_def checkValid_def maxNestingDepth_def exampleParseFloat_def)

text \<open>
  Claim C5, as the code has it. When the subject-identifier path resolves to a value
  that is neither a string nor \<open>null\<close> (a number, a boolean, an array, an object),
  \<open>GetSubject\<close> returns the decoding error of the identifier. When the path is missing
  or resolves to \<open>null\<close>, the raw text is \<open>null\<close> after \<open>Coalesce\<close>, and decoding it leaves
  the identifier at its zero value and reports nothing: whenever the attributes decode,
  \<open>GetSubject\<close> returns a Subject whose id is the empty string, and a \<open>nil\<close> error. A
  string at the path becomes the id. When the identifier decodes and the attributes do
  not, \<open>GetSubject\<close> returns the decoding error of the attributes. The attributes decode
  when their path is missing or resolves to \<open>null\<close>; an object at the path decodes
  exactly when it is nested no deeper than the decoder allows and each of its number
  literals is in the range of \<open>float64\<close>.
\<close>

theorem GetSubject_identifier_decoding:
  "(\<forall>v. get rawData (SubjectFrom s) = Some v \<and> v \<noteq> JNull \<and> (\<forall>x. v \<noteq> JString x) \<longrightarrow>
      (\<exists>err. GetSubject parseFloat get s rawData =
        Inl (WrapError ''configured subject_from GJSON path returned an error on JSON output: ''
               err))) \<and>
   ((get rawData (SubjectFrom s) = None \<or> get rawData (SubjectFrom s) = Some JNull) \<and>
    (get rawData (AttributesFrom s) = None \<or> get rawData (AttributesFrom s) = Some JNull) \<longrightarrow>
      GetSubject parseFloat get s rawData = Inr \<lparr>Id' = [], Attributes = None\<rparr>) \<and>
   (\<forall>attrs. (get rawData (SubjectFrom s) = None \<or> get rawData (SubjectFrom s) = Some JNull) \<and>
      Unmarshal_map parseFloat (Coalesce [get rawData (AttributesFrom s), Some JNull]) None
        = Inr attrs \<longrightarrow>
      GetSubject parseFloat get s rawData = Inr \<lparr>Id' = [], Attributes = attrs\<rparr>) \<and>
   (\<forall>x attrs. get rawData (SubjectFrom s) = Some (JString x) \<and>
      Unmarshal_map parseFloat (Coalesce [get rawData (AttributesFrom s), Some JNull]) None
        = Inr attrs \<longrightarrow>
      GetSubject parseFloat get s rawData = Inr \<lparr>Id' = x, Attributes = attrs\<rparr>) \<and>
   (\<forall>err. (get rawData (SubjectFrom s) = None \<or> get rawData (SubjectFrom s) = Some JNull \<or>
        (\<exists>x. get rawData (SubjectFrom s) = Some (JString x))) \<and>
      Unmarshal_map parseFloat (Coalesce [get rawData (AttributesFrom s), Some JNull]) None
        = Inl err \<longrightarrow>
      GetSubject parseFloat get s rawData =
        Inl (WrapError ''configured attributes_from GJSON path returned an error on JSON output: ''
               err)) \<and>
   (\<forall>kvs. get rawData (AttributesFrom s) = Some (JObject kvs) \<longrightarrow>
      ((\<exists>m. Unmarshal_map parseFloat (Coalesce [get rawData (AttributesFrom s), Some JNull]) None
             = Inr (Some m)) \<longleftrightarrow>
       depth (JObject kvs) \<le> maxNestingDepth \<and>
       (\<forall>n\<in>set (numbersMembers kvs). parseFloat n \<noteq> None)))"
proof (intro conjI allI impI)
  fix v
  assume h: "get rawData (SubjectFrom s) = Some v \<and> v \<noteq> JNull \<and> (\<forall>x. v \<noteq> JString x)"
  then obtain err where "Unmarshal_string (Some v) [] = Inl err"
    using Unmarshal_string_other by blast
  with h show "\<exists>err. GetSubject parseFloat get s rawData =
        Inl (WrapError ''configured subject_from GJSON path returned an error on JSON output: ''
               err)"
    by (simp add: GetSubject_def)
next
  assume "(get rawData (SubjectFrom s) = None \<or> get rawData (SubjectFrom s) = Some JNull) \<and>
    (get rawData (AttributesFrom s) = None \<or> get rawData (AttributesFrom s) = Some JNull)"
  then show "GetSubject parseFloat get s rawData = Inr \<lparr>Id' = [], Attributes = None\<rparr>"
    by (auto simp: GetSubject_def Unmarshal_string_null Unmarshal_map_null)
next
  fix attrs
  assume "(get rawData (SubjectFrom s) = None \<or> get rawData (SubjectFrom s) = Some JNull) \<and>
      Unmarshal_map parseFloat (Coalesce [get rawData (AttributesFrom s), Some JNull]) None
        = Inr attrs"
  then show "GetSubject parseFloat get s rawData = Inr \<lparr>Id' = [], Attributes = attrs\<rparr>"
    by (auto simp: GetSubject_def Unmarshal_string_null)
next
  fix x attrs
  assume "get rawData (SubjectFrom s) = Some (JString x) \<and>
      Unmarshal_map parseFloat (Coalesce [get rawData (AttributesFrom s), Some JNull]) None
        = Inr attrs"
  then show "GetSubject parseFloat get s rawData = Inr \<lparr>Id' = x, Attributes = attrs\<rparr>"
    by (auto simp: GetSubject_def Unmarshal_string_string)
next
  fix err
  assume "(get rawData (SubjectFrom s) = None \<or> get rawData (SubjectFrom s) = Some JNull \<or>
        (\<exists>x. get rawData (SubjectFrom s) = Some (JString x))) \<and>
      Unmarshal_map parseFloat (Coalesce [get rawData (AttributesFrom s), Some JNull]) None
        = Inl err"
  then show "GetSubject parseFloat get s rawData =
        Inl (WrapError ''configured attributes_from GJSON path returned an error on JSON output: ''
               err)"
    by (auto simp: GetSubject_def Unmarshal_string_null Unmarshal_string_string)
next
  fix kvs
  assume "get rawData (AttributesFrom s) = Some (JObject kvs)"
  then show "(\<exists>m. Unmarshal_map parseFloat (Coalesce [get rawData (AttributesFrom s), Some JNull]) None
             = Inr (Some m)) \<longleftrightarrow>
       depth (JObject kvs) \<le> maxNestingDepth \<and>
       (\<forall>n\<in>set (numbersMembers kvs). parseFloat n \<noteq> None)"
    by (simp add: Unmarshal_map_object)
qed

text \<open>
  The theorem at four payloads: the identifier is the number 42; the identifier is
  \<open>null\<close> beside an attributes object; the identifier is the string \<open>alice\<close>; the
  identifier is \<open>alice\<close> and the attributes hold the number \<open>1e400\<close>.
\<close>

theorem GetSubject_identifier_decoding_witness:
  "GetSubject exampleParseFloat memberGet \<lparr>SubjectFrom = ''sub'', AttributesFrom = ''attrs''\<rparr>
     (JObject [(''sub'', JNumber ''42'')]) =
     Inl (WrapError ''configured subject_from GJSON path returned an error on JSON output: ''
            (UnmarshalTypeError ''number'' ''string'')) \<and>
   GetSubject exampleParseFloat memberGet \<lparr>SubjectFrom = ''sub'', AttributesFrom = ''attrs''\<rparr>
     (JObject [(''sub'', JNull),
               (''attrs'', JObject [(''role'', JString ''admin''), (''age'', JNumber ''42'')])]) =
     Inr \<lparr>Id' = [], Attributes = Some [(''role'', VString ''admin''), (''age'', VFloat 42)]\<rparr> \<and>
   GetSubject exampleParseFloat memberGet \<lparr>SubjectFrom = ''sub'', AttributesFrom = ''attrs''\<rparr>
     (JObject [(''sub'', JString ''alice'')]) = Inr \<lparr>Id' = ''alice'', Attributes = None\<rparr> \<and>
   GetSubject exampleParseFloat memberGet \<lparr>SubjectFrom = ''sub'', AttributesFrom = ''attrs''\<rparr>
     (JObject [(''sub'', JString ''alice''), (''attrs'', JObject [(''n'', JNumber ''1e400'')])]) =
     Inl (WrapError ''configured attributes_from GJSON path returned an error on JSON output: ''
            (UnmarshalTypeError ''number 1e400'' ''float64''))"
proof -
  let ?s = "\<lparr>SubjectFrom = ''sub'', AttributesFrom = ''attrs''\<rparr>"
  let ?d1 = "JObject [(''sub'', JNumber ''42'')]"
  let ?d2 = "JObject [(''sub'', JNull),
               (''attrs'', JObject [(''role'', JString ''admin''), (''age'', JNumber ''42'')])]"
  let ?d3 = "JObject [(''sub'', JString ''alice'')]"
  let ?d4 = "JObject [(''sub'', JString ''alice''), (''attrs'', JObject [(''n'', JNumber ''1e400'')])]"
  note number = GetSubject_identifier_decoding
    [where get = memberGet and rawData = ?d1 and s = ?s and parseFloat = exampleParseFloat,
     THEN conjunct1, rule_format, of "JNumber ''42''"]
  note null = GetSubject_identifier_decoding
    [where get = memberGet and rawData = ?d2 and s = ?s and parseFloat = exampleParseFloat,
     THEN conjunct2, THEN conjunct2, THEN conjunct1, rule_format,
     of "Some [(''role'', VString ''admin''), (''age'', VFloat 42)]"]
  note alice = GetSubject_identifier_decoding
    [where get = memberGet and rawData = ?d3 and s = ?s and parseFloat = exampleParseFloat,
     THEN conjunct2, THEN conjunct2, THEN conjunct2, THEN conjunct1, rule_format,
     of "''alice''" None]
  note huge = GetSubject_identifier_decoding
    [where get = memberGet and rawData = ?d4 and s = ?s and parseFloat = exampleParseFloat,
     THEN conjunct2, THEN conjunct2, THEN conjunct2, THEN conjunct2, THEN conjunct1, rule_format,
     of "UnmarshalTypeError ''number 1e400'' ''float64''"]
  have "\<exists>err. GetSubject exampleParseFloat memberGet ?s ?d1 =
      Inl (WrapError ''configured subject_from GJSON path returned an error on JSON output: '' err)"
    by (rule number) (simp add: memberGet_def)
  moreover have "Unmarshal_string (Some (JNumber ''42'')) [] =
      Inl (UnmarshalTypeError ''number'' ''string'')"
    by (simp add: Unmarshal_string_def checkValid_def maxNestingDepth_def)
  ultimately have a: "GetSubject exampleParseFloat memberGet ?s ?d1 =
     Inl (WrapError ''configured subject_from GJSON path returned an error on JSON output: ''
            (UnmarshalTypeError ''number'' ''string''))"
    by (auto simp: GetSubject_def memberGet_def)
  have b: "GetSubject exampleParseFloat memberGet ?s ?d2 =
     Inr \<lparr>Id' = [], Attributes = Some [(''role'', VString ''admin''), (''age'', VFloat 42)]\<rparr>"
    by (rule null) (simp add: memberGet_def example_attributes)
  have c: "GetSubject exampleParseFloat memberGet ?s ?d3 = Inr \<lparr>Id' = ''alice'', Attributes = None\<rparr>"
    by (rule alice) (simp add: memberGet_def Unmarshal_map_null)
  have d: "GetSubject exampleParseFloat memberGet ?s ?d4 =
     Inl (WrapError ''configured attributes_from GJSON path returned an error on JSON output: ''
            (UnmarshalTypeError ''number 1e400'' ''float64''))"
    by (rule huge) (simp add: memberGet_def example_attributes)
  from a b c d show ?thesis by simp
qed

text \<open>
  Claim C5 as the specification states it fails: the payload has no member \<open>sub\<close>, and
  \<open>GetSubject\<close> returns a Subject with the empty id and no error.
\<close>

theorem GetSubject_missing_identifier_counterexample:
  "memberGet (JObject [(''name'', JString ''bob'')]) ''sub'' = None \<and>
   GetSubject exampleParseFloat memberGet \<lparr>SubjectFrom = ''sub'', AttributesFrom = ''attrs''\<rparr>
     (JObject [(''name'', JString ''bob'')]) = Inr \<lparr>Id' = [], Attributes = None\<rparr>"
  by (simp add: GetSubject_def memberGet_def Unmarshal_string_null Unmarshal_map_null)

section \<open>Authentication with a JWT\<close>

lemma no_token: "GetAuthData (jwt_adg exampleAuthenticator) emptyRequest =
     Inl (ErrAuthData (''no '' @ [CHR 0x27] @ ''access_token'' @ [CHR 0x27] @ '' query parameter present''))"
  by (simp add: exampleAuthenticator_def emptyRequest_def Query_GetAuthData_def Query_def)

text \<open>
  Claim C4, as the code has it. \<open>Authenticate\<close> requests the key set first and decodes
  it, and only then extracts the token from the request. A failing request to the key-set
  endpoint, or a body that does not decode, is the result of \<open>Authenticate\<close> whatever
  the request carries; the auth-data-missing error (wrapped as \<open>no jwt present\<close>) is the
  result for a request without a credential when the key set was fetched and decoded.
\<close>

theorem Authenticate_fetches_key_set_first:
  "(\<forall>e. SendRequest X (jwt_e a) = Inl e \<longrightarrow> Authenticate X a as sc = (Some e, sc)) \<and>
   (\<forall>body e. SendRequest X (jwt_e a) = Inr body \<and> Unmarshal_jwks X body = Inl e \<longrightarrow>
      Authenticate X a as sc = (Some e, sc)) \<and>
   (\<forall>body jwks err. SendRequest X (jwt_e a) = Inr body \<and> Unmarshal_jwks X body = Inr jwks \<and>
      GetAuthData (jwt_adg a) as = Inl err \<longrightarrow>
      Authenticate X a as sc = (Some (ArgumentError ''no jwt present'' err), sc))"
  by (simp add: Authenticate_def)

text \<open>
  The theorem at a request without a token with the endpoint up, and at a request with
  a token with the endpoint down.
\<close>

theorem Authenticate_fetches_key_set_first_witness:
  "Authenticate exampleExternals exampleAuthenticator emptyRequest \<lparr>Subject = None\<rparr> =
     (Some (ArgumentError ''no jwt present''
        (ErrAuthData (''no '' @ [CHR 0x27] @ ''access_token'' @ [CHR 0x27] @ '' query parameter present''))),
      \<lparr>Subject = None\<rparr>) \<and>
   Authenticate downExternals exampleAuthenticator tokenRequest \<lparr>Subject = None\<rparr> =
     (Some (LibError ''connection refused''), \<lparr>Subject = None\<rparr>)"
proof -
  have 1: "SendRequest exampleExternals (jwt_e exampleAuthenticator) = Inr ''keys'' \<and>
      Unmarshal_jwks exampleExternals ''keys'' = Inr exampleKeySet"
    by (simp add: exampleExternals_def)
  have 2: "SendRequest downExternals (jwt_e exampleAuthenticator) = Inl (LibError ''connection refused'')"
    by (simp add: downExternals_def)
  from Authenticate_fetches_key_set_first
         [of exampleExternals exampleAuthenticator emptyRequest "\<lparr>Subject = None\<rparr>"] 1 no_token
  have a: "Authenticate exampleExternals exampleAuthenticator emptyRequest \<lparr>Subject = None\<rparr> =
     (Some (ArgumentError ''no jwt present''
        (ErrAuthData (''no '' @ [CHR 0x27] @ ''access_token'' @ [CHR 0x27] @ '' query parameter present''))),
      \<lparr>Subject = None\<rparr>)"
    by blast
  from Authenticate_fetches_key_set_first
         [of downExternals exampleAuthenticator tokenRequest "\<lparr>Subject = None\<rparr>"] 2
  have b: "Authenticate downExternals exampleAuthenticator tokenRequest \<lparr>Subject = None\<rparr> =
     (Some (LibError ''connection refused''), \<lparr>Subject = None\<rparr>)"
    by blast
  from a b show ?thesis by simp
qed

text \<open>
  Claim C4 as the specification states it fails: the request carries no credential, the
  key-set endpoint refuses the connection, and \<open>Authenticate\<close> fails with the transport
  error, not with the auth-data-missing error.
\<close>

theorem Authenticate_missing_token_counterexample:
  "GetAuthData (jwt_adg exampleAuthenticator) emptyRequest =
     Inl (ErrAuthData (''no '' @ [CHR 0x27] @ ''access_token'' @ [CHR 0x27] @ '' query parameter present'')) \<and>
   Authenticate downExternals exampleAuthenticator emptyRequest \<lparr>Subject = None\<rparr> =
     (Some (LibError ''connection refused''), \<lparr>Subject = None\<rparr>) \<and>
   fst (Authenticate downExternals exampleAuthenticator emptyRequest \<lparr>Subject = None\<rparr>) \<noteq>
     Some (ArgumentError ''no jwt present''
        (ErrAuthData (''no '' @ [CHR 0x27] @ ''access_token'' @ [CHR 0x27] @ '' query parameter present'')))"
  by (simp add: no_token) (simp add: Authenticate_def downExternals_def)

section \<open>The allow-list of signature algorithms\<close>

lemma deref_alloc:
  "alloc hp v = (p, hp') \<Longrightarrow>
   p = length hp \<and> deref hp p = None \<and> deref hp' p = Some v \<and>
   (\<forall>q. q < length hp \<longrightarrow> deref hp' q = deref hp q)"
  by (auto simp: alloc_def deref_def nth_append)

lemma NewJwtAuthenticatorFromYAML_result:
  assumes "NewJwtAuthenticatorFromYAML X hp rawConfig = (Inr p, hp')"
    and "UnmarshalStrict_config X rawConfig = Inr conf"
  shows "deref hp' p =
    Some \<lparr>jwt_e = withDefaultMethod (withDefaultHeaders (cfg_Endpoint conf)),
          jwt_a = withDefaultAlgorithms (cfg_JwtAssertions conf),
          jwt_se = withDefaultSubjectFrom (cfg_Session conf),
          jwt_adg = (case cfg_AuthDataSource conf of None \<Rightarrow> defaultStrategy | Some es \<Rightarrow> es)\<rparr>"
  using assms
  by (auto simp: NewJwtAuthenticatorFromYAML_def Let_def alloc_def deref_def
      split: option.splits)

lemma defaultAlgorithms_asymmetric:
  "defaultAlgorithms = [''ES256'', ''ES384'', ''ES512'', ''PS256'', ''PS384'', ''PS512''] \<and>
   defaultAlgorithms \<noteq> [] \<and>
   set defaultAlgorithms \<subseteq> set asymmetricAlgorithms \<and>
   (\<forall>alg\<in>set defaultAlgorithms. \<not> prefix ''HS'' alg \<and> alg \<noteq> ''none'')"
  by (simp add: defaultAlgorithms_def asymmetricAlgorithms_def ES256_def ES384_def ES512_def
      PS256_def PS384_def PS512_def)

lemma example_construction:
  "NewJwtAuthenticatorFromYAML exampleExternals [] ''conf'' =
     (Inr 0, [\<lparr>jwt_e = \<lparr>ep_URL = ''https://keys.example/jwks'', ep_Method = ''GET'',
                        ep_Headers = Some [(''Accept-Type'', ''application/json'')]\<rparr>,
               jwt_a = exampleExpectation\<lparr>AllowedAlgorithms := defaultAlgorithms\<rparr>,
               jwt_se = \<lparr>SubjectFrom = ''sub'', AttributesFrom = ''attrs''\<rparr>,
               jwt_adg = QueryParameterExtractStrategy ''access_token'' ''Bearer''\<rparr>])"
  by (simp add: NewJwtAuthenticatorFromYAML_def exampleExternals_def exampleConfig_def
      exampleExpectation_def withDefaultMethod_def withDefaultHeaders_def
      withDefaultAlgorithms_def withDefaultSubjectFrom_def alloc_def)

text \<open>
  Claim C7. When the decoded configuration names no allowed algorithm, the authenticator
  that \<open>NewJwtAuthenticatorFromYAML\<close> returns has the default allow-list: the six names
  ES256, ES384, ES512, PS256, PS384 and PS512, all of them asymmetric, none of them an
  \<open>HS\<close> algorithm or \<open>none\<close>. \<open>verifyTokenAndGetClaims\<close>, once the token has two dots,
  parses and has exactly one key located for it, fails with the error
  \<open><alg> algorithm is not allowed\<close> when the assertions do not allow that key's
  algorithm, that is, when it is not in the allow-list.
\<close>

theorem default_allow_list_and_rejection:
  "(\<forall>conf p hp'. UnmarshalStrict_config X rawConfig = Inr conf \<and>
      AllowedAlgorithms (cfg_JwtAssertions conf) = [] \<and>
      NewJwtAuthenticatorFromYAML X hp rawConfig = (Inr p, hp') \<longrightarrow>
      (\<exists>new. deref hp' p = Some new \<and> AllowedAlgorithms (jwt_a new) = defaultAlgorithms)) \<and>
   defaultAlgorithms = [''ES256'', ''ES384'', ''ES512'', ''PS256'', ''PS384'', ''PS512''] \<and>
   defaultAlgorithms \<noteq> [] \<and>
   set defaultAlgorithms \<subseteq> set asymmetricAlgorithms \<and>
   (\<forall>alg\<in>set defaultAlgorithms. \<not> prefix ''HS'' alg \<and> alg \<noteq> ''none'') \<and>
   (\<forall>token key. Count jwtRaw (CHR ''.'') = 2 \<and> ParseSigned X jwtRaw = Inr token \<and>
      locateKeys jwks (Headers token) = [key] \<and>
      \<not> IsAlgorithmAllowed (jwt_a a) (Algorithm key) \<longrightarrow>
      verifyTokenAndGetClaims X a jwtRaw jwks =
        Inl (ErrorString (Algorithm key @ '' algorithm is not allowed''))) \<and>
   (\<forall>alg. IsAlgorithmAllowed (jwt_a a) alg \<longleftrightarrow> alg \<in> set (AllowedAlgorithms (jwt_a a)))"
proof (intro conjI allI impI)
  fix conf p hp'
  assume h: "UnmarshalStrict_config X rawConfig = Inr conf \<and>
      AllowedAlgorithms (cfg_JwtAssertions conf) = [] \<and>
      NewJwtAuthenticatorFromYAML X hp rawConfig = (Inr p, hp')"
  then have "deref hp' p =
    Some \<lparr>jwt_e = withDefaultMethod (withDefaultHeaders (cfg_Endpoint conf)),
          jwt_a = withDefaultAlgorithms (cfg_JwtAssertions conf),
          jwt_se = withDefaultSubjectFrom (cfg_Session conf),
          jwt_adg = (case cfg_AuthDataSource conf of None \<Rightarrow> defaultStrategy | Some es \<Rightarrow> es)\<rparr>"
    using NewJwtAuthenticatorFromYAML_result by blast
  moreover from h have "AllowedAlgorithms (withDefaultAlgorithms (cfg_JwtAssertions conf)) = defaultAlgorithms"
    by (simp add: withDefaultAlgorithms_def)
  ultimately show "\<exists>new. deref hp' p = Some new \<and> AllowedAlgorithms (jwt_a new) = defaultAlgorithms"
    by simp
next
  fix token key
  assume "Count jwtRaw (CHR ''.'') = 2 \<and> ParseSigned X jwtRaw = Inr token \<and>
      locateKeys jwks (Headers token) = [key] \<and>
      \<not> IsAlgorithmAllowed (jwt_a a) (Algorithm key)"
  then show "verifyTokenAndGetClaims X a jwtRaw jwks =
        Inl (ErrorString (Algorithm key @ '' algorithm is not allowed''))"
    by (simp add: verifyTokenAndGetClaims_def)
qed (use defaultAlgorithms_asymmetric in \<open>simp_all add: IsAlgorithmAllowed_def\<close>)

text \<open>
  The theorem at the configuration \<open>conf\<close>, which names no algorithm: the authenticator
  built from it rejects the token whose key is an HS256 key and accepts the one whose
  key is an ES256 key.
\<close>

theorem default_allow_list_and_rejection_witness:
  "NewJwtAuthenticatorFromYAML exampleExternals [] ''conf'' = (Inr 0, [exampleAuthenticator]) \<and>
   AllowedAlgorithms (jwt_a exampleAuthenticator) =
     [''ES256'', ''ES384'', ''ES512'', ''PS256'', ''PS384'', ''PS512''] \<and>
   verifyTokenAndGetClaims exampleExternals exampleAuthenticator ''x.y.z'' exampleKeySet =
     Inl (ErrorString ''HS256 algorithm is not allowed'') \<and>
   verifyTokenAndGetClaims exampleExternals exampleAuthenticator ''a.b.c'' exampleKeySet =
     Inr (JObject [(''sub'', JString ''alice''), (''exp'', JNumber ''4102444800'')])"
proof -
  let ?key = "\<lparr>KeyID = ''k2'', Algorithm = ''HS256''\<rparr>"
  let ?token = "\<lparr>Headers = [\<lparr>hdr_KeyID = ''k2'', hdr_Algorithm = ''HS256''\<rparr>], compact = ''x.y.z''\<rparr>"
  note th0 = default_allow_list_and_rejection
    [of exampleExternals "''conf''" "[]" "''x.y.z''" exampleKeySet exampleAuthenticator]
  note built = th0 [THEN conjunct1, rule_format]
  note names = th0 [THEN conjunct2, THEN conjunct1]
  note rejects = th0 [THEN conjunct2, THEN conjunct2, THEN conjunct2, THEN conjunct2,
      THEN conjunct2, THEN conjunct1, rule_format]
  note allowed = th0 [THEN conjunct2, THEN conjunct2, THEN conjunct2, THEN conjunct2,
      THEN conjunct2, THEN conjunct2, rule_format]
  have c: "NewJwtAuthenticatorFromYAML exampleExternals [] ''conf'' = (Inr 0, [exampleAuthenticator])"
    by (simp add: example_construction exampleAuthenticator_def)
  have 1: "UnmarshalStrict_config exampleExternals ''conf'' = Inr exampleConfig \<and>
      AllowedAlgorithms (cfg_JwtAssertions exampleConfig) = [] \<and>
      NewJwtAuthenticatorFromYAML exampleExternals [] ''conf'' = (Inr 0, [exampleAuthenticator])"
    using c by (simp add: exampleExternals_def exampleConfig_def exampleExpectation_def)
  from built [OF 1] obtain new where new: "deref [exampleAuthenticator] 0 = Some new"
      "AllowedAlgorithms (jwt_a new) = defaultAlgorithms"
    by blast
  from new(1) have "new = exampleAuthenticator" by (simp add: deref_def)
  with new(2) names have algs: "AllowedAlgorithms (jwt_a exampleAuthenticator) =
     [''ES256'', ''ES384'', ''ES512'', ''PS256'', ''PS384'', ''PS512'']"
    by simp
  have no: "\<not> IsAlgorithmAllowed (jwt_a exampleAuthenticator) (Algorithm ?key)"
    by (simp add: allowed algs)
  have 2: "Count ''x.y.z'' (CHR ''.'') = 2 \<and> ParseSigned exampleExternals ''x.y.z'' = Inr ?token \<and>
      locateKeys exampleKeySet (Headers ?token) = [?key] \<and>
      \<not> IsAlgorithmAllowed (jwt_a exampleAuthenticator) (Algorithm ?key)"
    using no by (simp add: Count_def exampleExternals_def exampleKeySet_def Key_def)
  from rejects [OF 2]
  have r: "verifyTokenAndGetClaims exampleExternals exampleAuthenticator ''x.y.z'' exampleKeySet =
        Inl (ErrorString ''HS256 algorithm is not allowed'')"
    by simp
  have ok: "IsAlgorithmAllowed (jwt_a exampleAuthenticator) ''ES256''"
    by (simp add: allowed algs)
  have good: "verifyTokenAndGetClaims exampleExternals exampleAuthenticator ''a.b.c'' exampleKeySet =
     Inr (JObject [(''sub'', JString ''alice''), (''exp'', JNumber ''4102444800'')])"
    using ok by (simp add: verifyTokenAndGetClaims_def Count_def exampleExternals_def
        exampleKeySet_def Key_def)
  from c algs r good show ?thesis by simp
qed

section \<open>Rule-level reconfiguration of the JWT authenticator\<close>

text \<open>
  Claim C9. \<open>WithConfig\<close> on an empty configuration returns the pointer it was called
  on and a \<open>nil\<close> error, and leaves the heap, and with it the authenticator, as it was.
\<close>

theorem WithConfig_empty_identity:
  "length config = 0 \<Longrightarrow> WithConfig X hp a config = (Inr a, hp)"
  by (simp add: WithConfig_def)

text \<open>The theorem at a heap that holds one authenticator, called on its pointer.\<close>

theorem WithConfig_empty_identity_witness:
  "length ([] :: string) = 0 \<and>
   WithConfig exampleExternals [exampleAuthenticator] 0 [] = (Inr 0, [exampleAuthenticator])"
  using WithConfig_empty_identity [of "[]" exampleExternals "[exampleAuthenticator]" 0]
  by simp

text \<open>
  Claim C8. \<open>WithConfig\<close> on a non-empty configuration that decodes returns a pointer to
  a newly allocated authenticator, different from the receiver, whose endpoint, subject
  extractor and auth-data strategy are the receiver's and whose assertions are the
  decoded ones. The receiver, and every authenticator allocated before the call, reads
  as it did before. When the configuration does not decode, \<open>WithConfig\<close> returns the
  decoder's error and the heap as it was.
\<close>

theorem WithConfig_replaces_assertions_only:
  "(\<forall>assertions this. length config \<noteq> 0 \<and> Unmarshal_override X config = Inr assertions \<and>
      deref hp a = Some this \<longrightarrow>
      (\<exists>p hp'. WithConfig X hp a config = (Inr p, hp') \<and> p \<noteq> a \<and> deref hp p = None \<and>
         deref hp' p = Some \<lparr>jwt_e = jwt_e this, jwt_a = assertions, jwt_se = jwt_se this,
                              jwt_adg = jwt_adg this\<rparr> \<and>
         deref hp' a = Some this \<and>
         (\<forall>q. q < length hp \<longrightarrow> deref hp' q = deref hp q))) \<and>
   (\<forall>err. length config \<noteq> 0 \<and> Unmarshal_override X config = Inl err \<longrightarrow>
      WithConfig X hp a config = (Inl err, hp))"
proof (intro conjI allI impI)
  fix assertions this
  assume h: "length config \<noteq> 0 \<and> Unmarshal_override X config = Inr assertions \<and>
      deref hp a = Some this"
  let ?new = "\<lparr>jwt_e = jwt_e this, jwt_a = assertions, jwt_se = jwt_se this, jwt_adg = jwt_adg this\<rparr>"
  obtain p hp' where al: "alloc hp ?new = (p, hp')" by force
  from deref_alloc [OF al]
  have d: "p = length hp" "deref hp p = None" "deref hp' p = Some ?new"
    "\<forall>q. q < length hp \<longrightarrow> deref hp' q = deref hp q"
    by blast+
  from h have lt: "a < length hp" by (simp add: deref_def split: if_splits)
  with d(1) have "p \<noteq> a" by simp
  moreover from lt d(4) h have "deref hp' a = Some this" by simp
  moreover from h al have "WithConfig X hp a config = (Inr p, hp')"
    by (simp add: WithConfig_def)
  ultimately show "\<exists>p hp'. WithConfig X hp a config = (Inr p, hp') \<and> p \<noteq> a \<and> deref hp p = None \<and>
         deref hp' p = Some ?new \<and> deref hp' a = Some this \<and>
         (\<forall>q. q < length hp \<longrightarrow> deref hp' q = deref hp q)"
    using d by blast
next
  fix err
  assume "length config \<noteq> 0 \<and> Unmarshal_override X config = Inl err"
  then show "WithConfig X hp a config = (Inl err, hp)"
    by (simp add: WithConfig_def)
qed

text \<open>
  The theorem at the override \<open>issuer\<close>, which sets a trusted issuer, and at a
  configuration that is not YAML.
\<close>

theorem WithConfig_replaces_assertions_only_witness:
  "WithConfig exampleExternals [exampleAuthenticator] 0 ''issuer'' =
     (Inr 1, [exampleAuthenticator, exampleAuthenticator\<lparr>jwt_a := issuerExpectation\<rparr>]) \<and>
   WithConfig exampleExternals [exampleAuthenticator] 0 ''{{'' =
     (Inl (LibError ''yaml: unmarshal errors''), [exampleAuthenticator])"
proof -
  note replaced = WithConfig_replaces_assertions_only
    [of "''issuer''" exampleExternals "[exampleAuthenticator]" 0, THEN conjunct1, rule_format]
  note refused = WithConfig_replaces_assertions_only
    [of "''{{''" exampleExternals "[exampleAuthenticator]" 0, THEN conjunct2, rule_format]
  have 1: "length ''issuer'' \<noteq> 0 \<and> Unmarshal_override exampleExternals ''issuer'' = Inr issuerExpectation \<and>
      deref [exampleAuthenticator] 0 = Some exampleAuthenticator"
    by (simp add: exampleExternals_def deref_def)
  have 2: "length ''{{'' \<noteq> 0 \<and>
      Unmarshal_override exampleExternals ''{{'' = Inl (LibError ''yaml: unmarshal errors'')"
    by (simp add: exampleExternals_def)
  from replaced [OF 1]
  obtain p hp' where r: "WithConfig exampleExternals [exampleAuthenticator] 0 ''issuer'' = (Inr p, hp')"
    "deref [exampleAuthenticator] p = None"
    "deref hp' p = Some \<lparr>jwt_e = jwt_e exampleAuthenticator, jwt_a = issuerExpectation,
        jwt_se = jwt_se exampleAuthenticator, jwt_adg = jwt_adg exampleAuthenticator\<rparr>"
    "deref hp' 0 = Some exampleAuthenticator"
    by blast
  have sh: "WithConfig exampleExternals [exampleAuthenticator] 0 ''issuer'' =
      (Inr 1, [exampleAuthenticator, \<lparr>jwt_e = jwt_e exampleAuthenticator, jwt_a = issuerExpectation,
        jwt_se = jwt_se exampleAuthenticator, jwt_adg = jwt_adg exampleAuthenticator\<rparr>])"
    using 1 by (simp add: WithConfig_def alloc_def)
  have eq: "\<lparr>jwt_e = jwt_e exampleAuthenticator, jwt_a = issuerExpectation,
        jwt_se = jwt_se exampleAuthenticator, jwt_adg = jwt_adg exampleAuthenticator\<rparr> =
        exampleAuthenticator\<lparr>jwt_a := issuerExpectation\<rparr>"
    by simp
  from r(1) sh have p: "p = 1" "hp' = [exampleAuthenticator, \<lparr>jwt_e = jwt_e exampleAuthenticator,
        jwt_a = issuerExpectation, jwt_se = jwt_se exampleAuthenticator,
        jwt_adg = jwt_adg exampleAuthenticator\<rparr>]"
    by simp_all
  from r(1) p eq have a: "WithConfig exampleExternals [exampleAuthenticator] 0 ''issuer'' =
     (Inr 1, [exampleAuthenticator, exampleAuthenticator\<lparr>jwt_a := issuerExpectation\<rparr>])"
    by simp
  from refused [OF 2]
  have b: "WithConfig exampleExternals [exampleAuthenticator] 0 ''{{'' =
     (Inl (LibError ''yaml: unmarshal errors''), [exampleAuthenticator])" .
  from a b show ?thesis by simp
qed

end
